theory Spec2Isabelle
  imports
    Complex_Main
    "HOL-Library.AList"
    "HOL-Library.Sublist"
    "HOL-Library.Char_ord"
    "HOL-Library.List_Lexorder"
begin

section \<open>Python exceptions\<close>

text \<open>
  The exceptions that the two modules raise, explicitly (\<^verbatim>\<open>raise ValueError(...)\<close>,
  \<^verbatim>\<open>raise ImportError(...)\<close>) or implicitly (a missing dictionary key, a local variable
  read before it is bound, an index out of range, a file that is not there, a \<^verbatim>\<open>None\<close>
  handed to an RDKit function). The string is the message.
\<close>

datatype py_error =
    ValueError string
  | ImportError string
  | KeyError string
  | UnboundLocalError string
  | IndexError
  | FileNotFoundError string
  | ArgumentError

section \<open>chemprop/features/features\_generators.py\<close>

subsection \<open>The registry\<close>

text \<open>
  \<^verbatim>\<open>FEATURES_GENERATOR_REGISTRY = {}\<close> is a Python dictionary: an association list
  with distinct keys in insertion order. \<^verbatim>\<open>d[k] = v\<close> is \<^const>\<open>AList.update\<close>
  (an existing key keeps its place and takes the new value, a new key goes to the end),
  \<^verbatim>\<open>k in d\<close> and \<^verbatim>\<open>d[k]\<close> are \<^const>\<open>map_of\<close>. The global dictionary is passed
  explicitly.
\<close>

type_synonym 'g registry = "(string \<times> 'g) list"

definition FEATURES_GENERATOR_REGISTRY :: "'g registry" where
  "FEATURES_GENERATOR_REGISTRY = []"

text \<open>
  \<^verbatim>\<open>register_features_generator(name)\<close> returns a decorator; the decorator stores the
  generator under the name and returns the generator itself. The model returns the new
  registry and the decorator's return value.
\<close>

definition register_features_generator ::
  "string \<Rightarrow> 'g \<Rightarrow> 'g registry \<Rightarrow> 'g registry \<times> 'g" where
  "register_features_generator features_generator_name features_generator reg =
     (AList.update features_generator_name features_generator reg, features_generator)"

definition not_found_message :: "string \<Rightarrow> string" where
  "not_found_message features_generator_name =
     ''Features generator \"'' @ features_generator_name @ ''\" could not be found. '' @
     ''If this generator relies on rdkit features, you may need to install descriptastorus.''"

definition get_features_generator :: "'g registry \<Rightarrow> string \<Rightarrow> py_error + 'g" where
  "get_features_generator reg features_generator_name =
     (case map_of reg features_generator_name of
        None \<Rightarrow> Inl (ValueError (not_found_message features_generator_name))
      | Some g \<Rightarrow> Inr g)"

definition get_available_features_generators :: "'g registry \<Rightarrow> string list" where
  "get_available_features_generators reg = map fst reg"

subsection \<open>Molecules, RDKit and descriptastorus\<close>

text \<open>
  A molecule is a SMILES string or an RDKit molecule; the argument of a generator is one
  molecule or a list of datapoints, each a list of molecules
  (\<^verbatim>\<open>type(mol_data) == list\<close> tells them apart). A generator returns a NumPy array: one
  vector, or the rows stacked by \<^verbatim>\<open>np.array(features)\<close>. Array entries are Python
  floats, idealised as reals.
\<close>

datatype 'mol molecule = Smiles string | RDMol 'mol

datatype 'mol mol_data = Single "'mol molecule" | Grouped "'mol molecule list list"

datatype features = Vec "real list" | Mat "real list list"

text \<open>
  RDKit is an external library, taken as a parameter. \<^verbatim>\<open>Chem.MolFromSmiles\<close> returns
  \<^verbatim>\<open>None\<close> for a string it cannot parse. \<^verbatim>\<open>DataStructs.ConvertToNumpyArray(fp, arr)\<close>
  overwrites the array it is given; the model returns the array's new contents.
\<close>

record ('mol, 'bv, 'cv) rdkit =
  MolFromSmiles :: "string \<Rightarrow> 'mol option"
  MolToSmiles :: "'mol \<Rightarrow> string"
  GetMorganFingerprintAsBitVect :: "'mol \<Rightarrow> nat \<Rightarrow> nat \<Rightarrow> 'bv"
  GetHashedMorganFingerprint :: "'mol \<Rightarrow> nat \<Rightarrow> nat \<Rightarrow> 'cv"
  ConvertBitVectToNumpyArray :: "'bv \<Rightarrow> real list \<Rightarrow> real list"
  ConvertCountVectToNumpyArray :: "'cv \<Rightarrow> real list \<Rightarrow> real list"

text \<open>
  descriptastorus, when it can be imported: the \<^verbatim>\<open>process\<close> methods of
  \<^verbatim>\<open>rdDescriptors.RDKit2D()\<close> and \<^verbatim>\<open>rdNormalizedDescriptors.RDKit2DNormalized()\<close>.
\<close>

record descriptastorus =
  RDKit2D_process :: "string \<Rightarrow> real list"
  RDKit2DNormalized_process :: "string \<Rightarrow> real list"

type_synonym 'mol features_generator = "'mol mol_data \<Rightarrow> py_error + features"

definition np_zeros :: "nat \<Rightarrow> real list" where
  "np_zeros n = replicate n 0"

text \<open>\<^verbatim>\<open>np.array(features)\<close> on a list of vectors: the rows, in order.\<close>

definition np_array :: "real list list \<Rightarrow> features" where
  "np_array rows = Mat rows"

subsection \<open>Morgan fingerprints\<close>

definition MORGAN_RADIUS :: nat where
  "MORGAN_RADIUS = 2"

definition MORGAN_NUM_BITS :: nat where
  "MORGAN_NUM_BITS = 2048"

text \<open>
  \<^verbatim>\<open>Chem.MolFromSmiles(molecule) if type(molecule) == str else molecule\<close>; the
  fingerprint functions reject \<^verbatim>\<open>None\<close>.
\<close>

definition to_mol :: "('mol, 'bv, 'cv) rdkit \<Rightarrow> 'mol molecule \<Rightarrow> py_error + 'mol" where
  "to_mol rd molecule =
     (case molecule of
        Smiles s \<Rightarrow> (case MolFromSmiles rd s of None \<Rightarrow> Inl ArgumentError | Some m \<Rightarrow> Inr m)
      | RDMol m \<Rightarrow> Inr m)"

text \<open>The three statements that both branches of the binary generator run on a molecule.\<close>

definition morgan_binary_vec ::
  "('mol, 'bv, 'cv) rdkit \<Rightarrow> 'mol molecule \<Rightarrow> nat \<Rightarrow> nat \<Rightarrow> py_error + real list" where
  "morgan_binary_vec rd molecule radius num_bits =
     (case to_mol rd molecule of
        Inl e \<Rightarrow> Inl e
      | Inr m \<Rightarrow>
          (let features_vec = GetMorganFingerprintAsBitVect rd m radius num_bits;
               f = np_zeros 1
           in Inr (ConvertBitVectToNumpyArray rd features_vec f)))"

text \<open>The inner loop \<^verbatim>\<open>for molecule in datapoint\<close>, appending to \<^verbatim>\<open>entry_features\<close>.\<close>

fun morgan_binary_datapoint ::
  "('mol, 'bv, 'cv) rdkit \<Rightarrow> nat \<Rightarrow> nat \<Rightarrow> 'mol molecule list \<Rightarrow> real list list
     \<Rightarrow> py_error + real list list" where
  "morgan_binary_datapoint rd radius num_bits [] entry_features = Inr entry_features"
| "morgan_binary_datapoint rd radius num_bits (molecule # rest) entry_features =
     (case morgan_binary_vec rd molecule radius num_bits of
        Inl e \<Rightarrow> Inl e
      | Inr f \<Rightarrow> morgan_binary_datapoint rd radius num_bits rest (entry_features @ [f]))"

text \<open>The outer loop \<^verbatim>\<open>for datapoint in mol_data\<close>, extending \<^verbatim>\<open>features\<close>.\<close>

fun morgan_binary_loop ::
  "('mol, 'bv, 'cv) rdkit \<Rightarrow> nat \<Rightarrow> nat \<Rightarrow> 'mol molecule list list \<Rightarrow> real list list
     \<Rightarrow> py_error + real list list" where
  "morgan_binary_loop rd radius num_bits [] features = Inr features"
| "morgan_binary_loop rd radius num_bits (datapoint # rest) features =
     (case morgan_binary_datapoint rd radius num_bits datapoint [] of
        Inl e \<Rightarrow> Inl e
      | Inr entry_features \<Rightarrow>
          morgan_binary_loop rd radius num_bits rest (features @ entry_features))"

definition morgan_binary_features_generator ::
  "('mol, 'bv, 'cv) rdkit \<Rightarrow> 'mol mol_data \<Rightarrow> nat \<Rightarrow> nat \<Rightarrow> py_error + features" where
  "morgan_binary_features_generator rd mol_data radius num_bits =
     (case mol_data of
        Grouped groups \<Rightarrow>
          (case morgan_binary_loop rd radius num_bits groups [] of
             Inl e \<Rightarrow> Inl e
           | Inr features \<Rightarrow> Inr (np_array features))
      | Single molecule \<Rightarrow>
          (case morgan_binary_vec rd molecule radius num_bits of
             Inl e \<Rightarrow> Inl e
           | Inr features \<Rightarrow> Inr (Vec features)))"

text \<open>The counts-based generator: the same code around \<^verbatim>\<open>GetHashedMorganFingerprint\<close>.\<close>

definition morgan_counts_vec ::
  "('mol, 'bv, 'cv) rdkit \<Rightarrow> 'mol molecule \<Rightarrow> nat \<Rightarrow> nat \<Rightarrow> py_error + real list" where
  "morgan_counts_vec rd molecule radius num_bits =
     (case to_mol rd molecule of
        Inl e \<Rightarrow> Inl e
      | Inr m \<Rightarrow>
          (let features_vec = GetHashedMorganFingerprint rd m radius num_bits;
               f = np_zeros 1
           in Inr (ConvertCountVectToNumpyArray rd features_vec f)))"

fun morgan_counts_datapoint ::
  "('mol, 'bv, 'cv) rdkit \<Rightarrow> nat \<Rightarrow> nat \<Rightarrow> 'mol molecule list \<Rightarrow> real list list
     \<Rightarrow> py_error + real list list" where
  "morgan_counts_datapoint rd radius num_bits [] entry_features = Inr entry_features"
| "morgan_counts_datapoint rd radius num_bits (molecule # rest) entry_features =
     (case morgan_counts_vec rd molecule radius num_bits of
        Inl e \<Rightarrow> Inl e
      | Inr f \<Rightarrow> morgan_counts_datapoint rd radius num_bits rest (entry_features @ [f]))"

fun morgan_counts_loop ::
  "('mol, 'bv, 'cv) rdkit \<Rightarrow> nat \<Rightarrow> nat \<Rightarrow> 'mol molecule list list \<Rightarrow> real list list
     \<Rightarrow> py_error + real list list" where
  "morgan_counts_loop rd radius num_bits [] features = Inr features"
| "morgan_counts_loop rd radius num_bits (datapoint # rest) features =
     (case morgan_counts_datapoint rd radius num_bits datapoint [] of
        Inl e \<Rightarrow> Inl e
      | Inr entry_features \<Rightarrow>
          morgan_counts_loop rd radius num_bits rest (features @ entry_features))"

definition morgan_counts_features_generator ::
  "('mol, 'bv, 'cv) rdkit \<Rightarrow> 'mol mol_data \<Rightarrow> nat \<Rightarrow> nat \<Rightarrow> py_error + features" where
  "morgan_counts_features_generator rd mol_data radius num_bits =
     (case mol_data of
        Grouped groups \<Rightarrow>
          (case morgan_counts_loop rd radius num_bits groups [] of
             Inl e \<Rightarrow> Inl e
           | Inr features \<Rightarrow> Inr (np_array features))
      | Single molecule \<Rightarrow>
          (case morgan_counts_vec rd molecule radius num_bits of
             Inl e \<Rightarrow> Inl e
           | Inr features \<Rightarrow> Inr (Vec features)))"

subsection \<open>RDKit 2D descriptors\<close>

text \<open>
  \<^verbatim>\<open>Chem.MolToSmiles(molecule, isomericSmiles=True) if type(molecule) != str else molecule\<close>
\<close>

definition to_smiles :: "('mol, 'bv, 'cv) rdkit \<Rightarrow> 'mol molecule \<Rightarrow> string" where
  "to_smiles rd molecule = (case molecule of Smiles s \<Rightarrow> s | RDMol m \<Rightarrow> MolToSmiles rd m)"

text \<open>
  The body shared by the two generators of the \<^verbatim>\<open>try\<close> branch; \<open>process\<close> is
  \<^verbatim>\<open>generator.process\<close>, and \<^verbatim>\<open>[1:]\<close> is \<^const>\<open>tl\<close>.
\<close>

fun rdkit_2d_datapoint ::
  "('mol, 'bv, 'cv) rdkit \<Rightarrow> (string \<Rightarrow> real list) \<Rightarrow> 'mol molecule list \<Rightarrow> real list list
     \<Rightarrow> real list list" where
  "rdkit_2d_datapoint rd process [] entry_features = entry_features"
| "rdkit_2d_datapoint rd process (molecule # rest) entry_features =
     rdkit_2d_datapoint rd process rest (entry_features @ [tl (process (to_smiles rd molecule))])"

fun rdkit_2d_loop ::
  "('mol, 'bv, 'cv) rdkit \<Rightarrow> (string \<Rightarrow> real list) \<Rightarrow> 'mol molecule list list \<Rightarrow> real list list
     \<Rightarrow> real list list" where
  "rdkit_2d_loop rd process [] features = features"
| "rdkit_2d_loop rd process (datapoint # rest) features =
     rdkit_2d_loop rd process rest (features @ rdkit_2d_datapoint rd process datapoint [])"

definition rdkit_2d_body ::
  "('mol, 'bv, 'cv) rdkit \<Rightarrow> (string \<Rightarrow> real list) \<Rightarrow> 'mol mol_data \<Rightarrow> py_error + features" where
  "rdkit_2d_body rd process mol_data =
     (case mol_data of
        Grouped groups \<Rightarrow> Inr (np_array (rdkit_2d_loop rd process groups []))
      | Single molecule \<Rightarrow> Inr (Vec (tl (process (to_smiles rd molecule)))))"

definition rdkit_2d_message :: string where
  "rdkit_2d_message =
     ''Failed to import descriptastorus. Please install descriptastorus '' @
     ''(https://github.com/bp-kelley/descriptastorus) to use RDKit 2D features.''"

definition rdkit_2d_normalized_message :: string where
  "rdkit_2d_normalized_message =
     ''Failed to import descriptastorus. Please install descriptastorus '' @
     ''(https://github.com/bp-kelley/descriptastorus) to use RDKit 2D normalized features.''"

text \<open>
  The \<^verbatim>\<open>try\<close>/\<^verbatim>\<open>except ImportError\<close> block: the argument is descriptastorus when the
  import succeeds and \<^const>\<open>None\<close> when it raises.
\<close>

definition rdkit_2d_features_generator ::
  "('mol, 'bv, 'cv) rdkit \<Rightarrow> descriptastorus option \<Rightarrow> 'mol features_generator" where
  "rdkit_2d_features_generator rd lib =
     (case lib of
        Some d \<Rightarrow> rdkit_2d_body rd (RDKit2D_process d)
      | None \<Rightarrow> (\<lambda>mol_data. Inl (ImportError rdkit_2d_message)))"

definition rdkit_2d_normalized_features_generator ::
  "('mol, 'bv, 'cv) rdkit \<Rightarrow> descriptastorus option \<Rightarrow> 'mol features_generator" where
  "rdkit_2d_normalized_features_generator rd lib =
     (case lib of
        Some d \<Rightarrow> rdkit_2d_body rd (RDKit2DNormalized_process d)
      | None \<Rightarrow> (\<lambda>mol_data. Inl (ImportError rdkit_2d_normalized_message)))"

subsection \<open>The registry after the module is imported\<close>

text \<open>
  The four decorators run in the order of the file. A generator is called through the
  registry with the molecule alone (\<^verbatim>\<open>FeaturesGenerator = Callable[[Molecule], np.ndarray]\<close>),
  so the Morgan generators take their default radius and width.
\<close>

definition module_registry ::
  "('mol, 'bv, 'cv) rdkit \<Rightarrow> descriptastorus option \<Rightarrow> 'mol features_generator registry" where
  "module_registry rd lib =
     (let r0 = FEATURES_GENERATOR_REGISTRY;
          r1 = fst (register_features_generator ''morgan''
                 (\<lambda>mol_data. morgan_binary_features_generator rd mol_data MORGAN_RADIUS MORGAN_NUM_BITS) r0);
          r2 = fst (register_features_generator ''morgan_count''
                 (\<lambda>mol_data. morgan_counts_features_generator rd mol_data MORGAN_RADIUS MORGAN_NUM_BITS) r1);
          r3 = fst (register_features_generator ''rdkit_2d'' (rdkit_2d_features_generator rd lib) r2);
          r4 = fst (register_features_generator ''rdkit_2d_normalized''
                 (rdkit_2d_normalized_features_generator rd lib) r3)
      in r4)"

text \<open>A molecule the Morgan generators accept: an RDKit molecule, or a string that parses.\<close>

definition valid_molecule :: "('mol, 'bv, 'cv) rdkit \<Rightarrow> 'mol molecule \<Rightarrow> bool" where
  "valid_molecule rd molecule =
     (case molecule of Smiles s \<Rightarrow> MolFromSmiles rd s \<noteq> None | RDMol m \<Rightarrow> True)"


text \<open>A toy RDKit for concrete runs: a molecule is a number, a SMILES string parses to its
  length unless it is empty, and a fingerprint sets the bit of the molecule modulo the width.\<close>

definition toy_rdkit :: "(nat, bool list, nat list) rdkit" where
  "toy_rdkit =
     \<lparr> MolFromSmiles = (\<lambda>s. if s = [] then None else Some (length s)),
       MolToSmiles = (\<lambda>m. replicate m CHR ''C''),
       GetMorganFingerprintAsBitVect = (\<lambda>m radius nBits. map (\<lambda>i. i = m mod nBits) [0..<nBits]),
       GetHashedMorganFingerprint = (\<lambda>m radius nBits. map (\<lambda>i. if i = m mod nBits then radius + 1 else 0) [0..<nBits]),
       ConvertBitVectToNumpyArray = (\<lambda>bv arr. map (\<lambda>b. if b then 1 else 0) bv),
       ConvertCountVectToNumpyArray = (\<lambda>cv arr. map real cv) \<rparr>"

section \<open>chemprop/train/run\_training.py\<close>

text \<open>
  \<^verbatim>\<open>run_training\<close> is modelled as a function of the arguments, the data and the world
  outside (files, random number generators), returning the scores or the exception raised,
  and the world as the run left it. The functions it imports are parameters; they always
  return. Left out are the calls that only report: \<^verbatim>\<open>debug\<close> and \<^verbatim>\<open>info\<close>, the
  TensorBoard writer, Neptune (but not the reads of the local variable
  \<^verbatim>\<open>mean_val_score\<close> that its calls make), and what belongs to the collaborators: the
  data loaders, the graph cache, the loss function, \<^verbatim>\<open>makedirs\<close>. \<^verbatim>\<open>args.task_names\<close>
  is taken to have one name per task, as the dataset guarantees, so that the indexing by
  task in the log lines and in the predictions file stays in range.
\<close>

subsection \<open>Python floats\<close>

text \<open>
  Scores and predictions are Python floats. The finite ones are idealised as reals; the
  infinities and not-a-number are kept, since the training loop starts from
  \<^verbatim>\<open>float('inf')\<close> and reports \<^verbatim>\<open>np.nan\<close>. \<open>flt\<close> is \<^verbatim>\<open><\<close>: every
  comparison with not-a-number is false.
\<close>

datatype pyfloat = NaN | NegInf | Fin real | PosInf

fun flt :: "pyfloat \<Rightarrow> pyfloat \<Rightarrow> bool" where
  "flt NaN y = False"
| "flt x NaN = False"
| "flt NegInf NegInf = False"
| "flt NegInf y = True"
| "flt (Fin a) (Fin b) = (a < b)"
| "flt (Fin a) PosInf = True"
| "flt (Fin a) NegInf = False"
| "flt PosInf y = False"

fun fadd :: "pyfloat \<Rightarrow> pyfloat \<Rightarrow> pyfloat" where
  "fadd NaN y = NaN"
| "fadd x NaN = NaN"
| "fadd PosInf NegInf = NaN"
| "fadd NegInf PosInf = NaN"
| "fadd PosInf y = PosInf"
| "fadd x PosInf = PosInf"
| "fadd NegInf y = NegInf"
| "fadd x NegInf = NegInf"
| "fadd (Fin a) (Fin b) = Fin (a + b)"

text \<open>A float array divided by a Python integer; NumPy divides by zero without raising.\<close>

fun fdiv :: "pyfloat \<Rightarrow> int \<Rightarrow> pyfloat" where
  "fdiv NaN k = NaN"
| "fdiv PosInf k = (if k < 0 then NegInf else PosInf)"
| "fdiv NegInf k = (if k < 0 then PosInf else NegInf)"
| "fdiv (Fin a) k =
     (if k = 0 then (if a = 0 then NaN else if 0 < a then PosInf else NegInf)
      else Fin (a / real_of_int k))"

subsection \<open>Arrays of predictions\<close>

text \<open>
  A NumPy array, or the nested list with the same entries: its shape and its entries in
  row-major order. \<^verbatim>\<open>len\<close> is the first dimension.
\<close>

record ndarray =
  shape :: "nat list"
  cells :: "pyfloat list"

definition np_zeros_shape :: "nat list \<Rightarrow> ndarray" where
  "np_zeros_shape sh = \<lparr> shape = sh, cells = replicate (prod_list sh) (Fin 0) \<rparr>"

definition nd_len :: "ndarray \<Rightarrow> nat" where
  "nd_len a = (case shape a of [] \<Rightarrow> 0 | n # rest \<Rightarrow> n)"

text \<open>
  \<^verbatim>\<open>a += b\<close> on arrays of one shape adds entry by entry. \<^verbatim>\<open>predict\<close> returns one row
  per test datapoint and one entry per task, the shape of \<^verbatim>\<open>sum_test_preds\<close>; an operand
  of another shape is reported as the error NumPy raises when it cannot broadcast.
\<close>

definition nd_iadd :: "ndarray \<Rightarrow> ndarray \<Rightarrow> py_error + ndarray" where
  "nd_iadd a b =
     (if shape b = shape a
      then Inr \<lparr> shape = shape a, cells = map (\<lambda>(x, y). fadd x y) (zip (cells a) (cells b)) \<rparr>
      else Inl (ValueError ''operands could not be broadcast together''))"

definition nd_div :: "ndarray \<Rightarrow> int \<Rightarrow> ndarray" where
  "nd_div a k = \<lparr> shape = shape a, cells = map (\<lambda>x. fdiv x k) (cells a) \<rparr>"

subsection \<open>Arguments\<close>

text \<open>
  The fields of \<^verbatim>\<open>TrainArgs\<close> that \<^verbatim>\<open>run_training\<close> reads to decide what to do, and the
  three it assigns (\<open>train_class_sizes\<close>, \<open>train_data_size\<close>, \<open>spectra_phase_mask\<close>).
  The hyperparameters that only the collaborators read are part of the collaborators.
\<close>

record train_args =
  neptune_logging :: bool
  pytorch_seed :: int
  separate_test_path :: "string option"
  separate_val_path :: "string option"
  dataset_type :: string
  save_smiles_splits :: bool
  features_scaling :: bool
  atom_descriptor_scaling :: bool
  atom_descriptors :: "string option"
  bond_feature_scaling :: bool
  bond_features_size :: nat
  spectra_phase_mask_path :: "string option"
  num_tasks :: nat
  multiclass_num_classes :: nat
  task_names :: "string list"
  metric :: string
  metrics :: "string list"
  minimize_score :: bool
  epochs :: int
  ensemble_size :: int
  save_dir :: string
  checkpoint_paths :: "string list option"
  checkpoint_frzn :: "string option"
  save_preds :: bool
  train_class_sizes :: "real list list option"
  train_data_size :: nat
  spectra_phase_mask :: "bool list list option"

text \<open>\<^verbatim>\<open>if args.separate_test_path:\<close> is false for \<^verbatim>\<open>None\<close> and for the empty string.\<close>

definition truthy :: "string option \<Rightarrow> bool" where
  "truthy p = (case p of None \<Rightarrow> False | Some s \<Rightarrow> s \<noteq> [])"

subsection \<open>Files, events and the world\<close>

datatype scale_kind = ScaleFeatures | ScaleAtomDescriptors | ScaleBondFeatures

datatype split_role = SeparateVal | SeparateTest

record ('m, 's) checkpoint =
  ck_model :: 'm
  ck_scaler :: "'s option"
  ck_features_scaler :: "'s option"
  ck_atom_descriptor_scaler :: "'s option"
  ck_bond_feature_scaler :: "'s option"
  ck_args :: train_args

text \<open>A dictionary of scores, as the registry: keys in insertion order.\<close>

type_synonym scores = "(string \<times> pyfloat list) list"

datatype ('m, 's) disk_file =
    CheckpointFile "('m, 's) checkpoint"
  | ScoresJson scores
  | PredsCsv "string list list" "string list" ndarray

text \<open>
  The steps of a run that leave the function, in the order they happen. \<open>EvValidate\<close> is
  the primary metric's mean validation score of an epoch (the value compared at the end of
  the epoch), \<open>EvPredict\<close> a member's test predictions.
\<close>

datatype ('m, 's) event =
    EvSaveSplits
  | EvSaveCheckpoint string "('m, 's) checkpoint"
  | EvLoadCheckpoint string
  | EvTrain nat nat
  | EvValidate nat nat pyfloat
  | EvPredict nat ndarray
  | EvWriteScores string
  | EvWritePreds string

text \<open>
  The world outside the function: the file system (a path is a string), the random
  number generators, and the events so far.
\<close>

record ('m, 's, 'r) world =
  files :: "string \<rightharpoonup> ('m, 's) disk_file"
  rng :: 'r
  trace :: "('m, 's) event list"

definition emit :: "('m, 's) event \<Rightarrow> ('m, 's, 'r) world \<Rightarrow> ('m, 's, 'r) world" where
  "emit ev w = w\<lparr> trace := trace w @ [ev] \<rparr>"

text \<open>\<^verbatim>\<open>os.path.join(a, b)\<close> on POSIX paths.\<close>

definition os_path_join :: "string \<Rightarrow> string \<Rightarrow> string" where
  "os_path_join a b =
     (if b \<noteq> [] \<and> hd b = CHR ''/'' then b
      else if a = [] \<or> last a = CHR ''/'' then a @ b
      else a @ ''/'' @ b)"

text \<open>\<^verbatim>\<open>str\<close> of a natural number, for \<^verbatim>\<open>f'model_{model_idx}'\<close>.\<close>

definition digit_char :: "nat \<Rightarrow> char" where
  "digit_char d = ''0123456789'' ! d"

fun str_nat :: "nat \<Rightarrow> string" where
  "str_nat n = (if n < 10 then [digit_char n] else str_nat (n div 10) @ [digit_char (n mod 10)])"

declare str_nat.simps [simp del]

subsection \<open>Collaborators\<close>

text \<open>
  The functions that \<^verbatim>\<open>run_training\<close> imports from the rest of the package and from
  PyTorch, taken as parameters: \<open>'d\<close> is a datapoint (a dataset is a list of them),
  \<open>'m\<close> a model's weights, \<open>'o\<close> an optimizer with its learning-rate scheduler,
  \<open>'s\<close> a scaler, \<open>'t\<close> a table of targets, \<open>'r\<close> the state of the random number
  generators. \<open>train\<close> updates the model, the optimizer and scheduler and the generators
  and returns the new iteration count; the other functions change nothing. Moving a
  model to a device does not change its weights.
\<close>

record ('d, 'm, 'o, 's, 't, 'r) collaborators =
  manual_seed :: "int \<Rightarrow> 'r \<Rightarrow> 'r"
  get_data :: "split_role \<Rightarrow> train_args \<Rightarrow> 'd list"
  split_data :: "'d list \<Rightarrow> train_args \<Rightarrow> 'd list \<times> 'd list \<times> 'd list"
  get_class_sizes :: "'d list \<Rightarrow> bool \<Rightarrow> real list list"
  fit_scaler :: "scale_kind \<Rightarrow> 'd list \<Rightarrow> 's"
  apply_scaler :: "scale_kind \<Rightarrow> 's \<Rightarrow> 'd \<Rightarrow> 'd"
  fit_target_scaler :: "'d list \<Rightarrow> 's"
  scale_targets :: "'s \<Rightarrow> 'd \<Rightarrow> 'd"
  load_phase_mask :: "string option \<Rightarrow> bool list list option"
  normalize_spectrum :: "bool list list option \<Rightarrow> 'd \<Rightarrow> 'd"
  smiles :: "'d \<Rightarrow> string list"
  targets :: "'d list \<Rightarrow> 't"
  gt_targets :: "'d list \<Rightarrow> 't"
  lt_targets :: "'d list \<Rightarrow> 't"
  MoleculeModel :: "train_args \<Rightarrow> 'r \<Rightarrow> 'm \<times> 'r"
  load_frzn_model :: "'m \<Rightarrow> string \<Rightarrow> train_args \<Rightarrow> 'm"
  build_optimizer :: "'m \<Rightarrow> train_args \<Rightarrow> 'o"
  train :: "'m \<Rightarrow> 'o \<Rightarrow> 'd list \<Rightarrow> train_args \<Rightarrow> nat \<Rightarrow> nat \<Rightarrow> 'r \<Rightarrow> 'm \<times> 'o \<times> nat \<times> 'r"
  is_ExponentialLR :: "'o \<Rightarrow> bool"
  scheduler_step :: "'o \<Rightarrow> 'o"
  evaluate :: "'m \<Rightarrow> 'd list \<Rightarrow> nat \<Rightarrow> string list \<Rightarrow> string \<Rightarrow> 's option \<Rightarrow> scores"
  multitask_mean :: "pyfloat list \<Rightarrow> string \<Rightarrow> pyfloat"
  predict :: "'m \<Rightarrow> 'd list \<Rightarrow> 's option \<Rightarrow> ndarray"
  evaluate_predictions ::
    "ndarray \<Rightarrow> 't \<Rightarrow> nat \<Rightarrow> string list \<Rightarrow> string \<Rightarrow> 't \<Rightarrow> 't \<Rightarrow> scores"
  MODEL_FILE_NAME :: string

text \<open>
  Modelled from the spec: \<^verbatim>\<open>save_checkpoint\<close> and \<^verbatim>\<open>load_checkpoint\<close> of
  \<^verbatim>\<open>chemprop.utils\<close>. A checkpoint file is one bundle of the model's weights, the
  target scaler, the feature scaler, the atom-descriptor and bond-feature scalers and the
  arguments; saving replaces the file at the path, loading returns the model with the
  saved weights and fails when no checkpoint is at the path.
\<close>

definition save_checkpoint ::
  "string \<Rightarrow> 'm \<Rightarrow> 's option \<Rightarrow> 's option \<Rightarrow> 's option \<Rightarrow> 's option \<Rightarrow> train_args
     \<Rightarrow> ('m, 's, 'r) world \<Rightarrow> ('m, 's, 'r) world" where
  "save_checkpoint path model scaler features_scaler atom_descriptor_scaler bond_feature_scaler args w =
     (let ck = \<lparr> ck_model = model, ck_scaler = scaler, ck_features_scaler = features_scaler,
                 ck_atom_descriptor_scaler = atom_descriptor_scaler,
                 ck_bond_feature_scaler = bond_feature_scaler, ck_args = args \<rparr>
      in emit (EvSaveCheckpoint path ck) (w\<lparr> files := (files w)(path \<mapsto> CheckpointFile ck) \<rparr>))"

definition load_checkpoint ::
  "string \<Rightarrow> ('m, 's, 'r) world \<Rightarrow> (py_error + 'm) \<times> ('m, 's, 'r) world" where
  "load_checkpoint path w =
     (case files w path of
        Some (CheckpointFile ck) \<Rightarrow> (Inr (ck_model ck), emit (EvLoadCheckpoint path) w)
      | _ \<Rightarrow> (Inl (FileNotFoundError path), w))"

text \<open>
  Modelled from the spec: \<^verbatim>\<open>MoleculeDataset.normalize_features\<close>,
  \<^verbatim>\<open>normalize_targets\<close> and the spectra normalisation. A scaler is fitted on a
  dataset when none is given, and applied to every datapoint; the dataset keeps its
  length and order.
\<close>

definition normalize_features ::
  "('d, 'm, 'o, 's, 't, 'r) collaborators \<Rightarrow> scale_kind \<Rightarrow> 's option \<Rightarrow> 'd list \<Rightarrow> 's \<times> 'd list" where
  "normalize_features env kind given dataset =
     (let sc = (case given of None \<Rightarrow> fit_scaler env kind dataset | Some sc \<Rightarrow> sc)
      in (sc, map (apply_scaler env kind sc) dataset))"

definition normalize_targets ::
  "('d, 'm, 'o, 's, 't, 'r) collaborators \<Rightarrow> 'd list \<Rightarrow> 's \<times> 'd list" where
  "normalize_targets env dataset =
     (let sc = fit_target_scaler env dataset in (sc, map (scale_targets env sc) dataset))"

definition normalize_spectra_targets ::
  "('d, 'm, 'o, 's, 't, 'r) collaborators \<Rightarrow> bool list list option \<Rightarrow> 'd list \<Rightarrow> 'd list" where
  "normalize_spectra_targets env phase_mask dataset = map (normalize_spectrum env phase_mask) dataset"

subsection \<open>Splitting and scaling the data (lines 82 to 217)\<close>

definition split_datasets ::
  "('d, 'm, 'o, 's, 't, 'r) collaborators \<Rightarrow> train_args \<Rightarrow> 'd list \<Rightarrow> 'd list \<times> 'd list \<times> 'd list" where
  "split_datasets env args data =
     (if truthy (separate_val_path args) \<and> truthy (separate_test_path args) then
        (data, get_data env SeparateVal args, get_data env SeparateTest args)
      else if truthy (separate_val_path args) then
        (case split_data env data args of
           (train_data, unused, test_data) \<Rightarrow> (train_data, get_data env SeparateVal args, test_data))
      else if truthy (separate_test_path args) then
        (case split_data env data args of
           (train_data, val_data, unused) \<Rightarrow> (train_data, val_data, get_data env SeparateTest args))
      else split_data env data args)"

text \<open>
  One of the three scaling blocks: when its condition holds, the scaler is fitted on the
  training data and applied to all three datasets; otherwise the scaler is \<^verbatim>\<open>None\<close>.
\<close>

definition scale_block ::
  "('d, 'm, 'o, 's, 't, 'r) collaborators \<Rightarrow> scale_kind \<Rightarrow> bool \<Rightarrow> 'd list \<times> 'd list \<times> 'd list
     \<Rightarrow> 's option \<times> 'd list \<times> 'd list \<times> 'd list" where
  "scale_block env kind enabled splits =
     (case splits of (train_data, val_data, test_data) \<Rightarrow>
        if enabled then
          (case normalize_features env kind None train_data of (sc, train_data') \<Rightarrow>
             (Some sc, train_data',
              snd (normalize_features env kind (Some sc) val_data),
              snd (normalize_features env kind (Some sc) test_data)))
        else (None, train_data, val_data, test_data))"

record ('d, 's) prepared =
  train_data :: "'d list"
  val_data :: "'d list"
  test_data :: "'d list"
  features_scaler :: "'s option"
  atom_descriptor_scaler :: "'s option"
  bond_feature_scaler :: "'s option"
  scaler :: "'s option"
  p_args :: train_args

text \<open>Lines 82 to 178: the split, the class sizes, the three feature scalers.\<close>

definition prepare_features ::
  "('d, 'm, 'o, 's, 't, 'r) collaborators \<Rightarrow> train_args \<Rightarrow> 'd list \<Rightarrow> ('d, 's) prepared" where
  "prepare_features env args data =
     (case split_datasets env args data of (train0, val0, test0) \<Rightarrow>
      let args1 = (if dataset_type args = ''classification''
                   then args\<lparr> train_class_sizes := Some (get_class_sizes env train0 False) \<rparr>
                   else args)
      in
      case scale_block env ScaleFeatures (features_scaling args1) (train0, val0, test0) of
        (fs, train1, val1, test1) \<Rightarrow>
      case scale_block env ScaleAtomDescriptors
             (atom_descriptor_scaling args1 \<and> atom_descriptors args1 \<noteq> None) (train1, val1, test1) of
        (ads, train2, val2, test2) \<Rightarrow>
      case scale_block env ScaleBondFeatures
             (bond_feature_scaling args1 \<and> bond_features_size args1 > 0) (train2, val2, test2) of
        (bfs, train3, val3, test3) \<Rightarrow>
        \<lparr> train_data = train3, val_data = val3, test_data = test3,
          features_scaler = fs, atom_descriptor_scaler = ads, bond_feature_scaler = bfs,
          scaler = None,
          p_args = args1\<lparr> train_data_size := length train3 \<rparr> \<rparr>)"

text \<open>Lines 197 to 217: the target scaler, or the spectra normalisation.\<close>

definition prepare_targets ::
  "('d, 'm, 'o, 's, 't, 'r) collaborators \<Rightarrow> ('d, 's) prepared \<Rightarrow> ('d, 's) prepared" where
  "prepare_targets env p =
     (let args = p_args p in
      if dataset_type args = ''regression'' then
        (case normalize_targets env (train_data p) of (sc, train_data') \<Rightarrow>
           p\<lparr> train_data := train_data', scaler := Some sc,
              p_args := args\<lparr> spectra_phase_mask := None \<rparr> \<rparr>)
      else if dataset_type args = ''spectra'' then
        (let phase_mask = load_phase_mask env (spectra_phase_mask_path args) in
           p\<lparr> train_data := normalize_spectra_targets env phase_mask (train_data p),
              test_data := normalize_spectra_targets env phase_mask (test_data p),
              val_data := normalize_spectra_targets env phase_mask (val_data p),
              scaler := None,
              p_args := args\<lparr> spectra_phase_mask := phase_mask \<rparr> \<rparr>)
      else p\<lparr> scaler := None, p_args := args\<lparr> spectra_phase_mask := None \<rparr> \<rparr>)"

definition val_empty_message :: string where
  "val_empty_message =
     ''The validation data split is empty. During normal chemprop training (non-sklearn functions), '' @
     ''            a validation set is required to conduct early stopping according to the selected evaluation metric. This '' @
     ''            may have occurred because validation data provided with `--separate_val_path` was empty or contained only invalid molecules.''"

subsection \<open>One epoch and the epoch loop (lines 305 to 370)\<close>

record ('m, 'o) loop_state =
  model :: 'm
  optimizer :: 'o
  best_score :: pyfloat
  best_epoch :: nat
  n_iter :: nat
  mean_val_score :: "pyfloat option"

text \<open>
  \<^verbatim>\<open>args.minimize_score and mean_val_score < best_score or
  not args.minimize_score and mean_val_score > best_score\<close>
\<close>

definition score_improved :: "bool \<Rightarrow> pyfloat \<Rightarrow> pyfloat \<Rightarrow> bool" where
  "score_improved minimize mean_val best =
     (minimize \<and> flt mean_val best \<or> \<not> minimize \<and> flt best mean_val)"

text \<open>
  The body of \<^verbatim>\<open>for epoch in trange(args.epochs)\<close>. The loop over
  \<^verbatim>\<open>val_scores.items()\<close> only logs; \<^verbatim>\<open>val_scores[args.metric]\<close> raises when the primary
  metric is not among the keys. \<open>mean_val_score\<close> is a local variable of the function: it
  stays bound once an epoch has run.
\<close>

definition run_epoch ::
  "('d, 'm, 'o, 's, 't, 'r) collaborators \<Rightarrow> ('d, 's) prepared \<Rightarrow> nat \<Rightarrow> string \<Rightarrow> nat
     \<Rightarrow> ('m, 'o) loop_state \<Rightarrow> ('m, 's, 'r) world
     \<Rightarrow> (py_error + ('m, 'o) loop_state) \<times> ('m, 's, 'r) world" where
  "run_epoch env p model_idx ckpt_path epoch st w =
     (let args = p_args p in
      case train env (model st) (optimizer st) (train_data p) args (n_iter st) model_idx (rng w) of
        (model', opt', n_iter', r') \<Rightarrow>
      let w1 = emit (EvTrain model_idx epoch) (w\<lparr> rng := r' \<rparr>);
          opt'' = (if is_ExponentialLR env opt' then scheduler_step env opt' else opt');
          val_scores = evaluate env model' (val_data p) (num_tasks args) (metrics args)
                         (dataset_type args) (scaler p)
      in
      (case map_of val_scores (metric args) of
         None \<Rightarrow> (Inl (KeyError (metric args)), w1)
       | Some primary_scores \<Rightarrow>
           (let mvs = multitask_mean env primary_scores (metric args);
                w2 = emit (EvValidate model_idx epoch mvs) w1;
                st' = st\<lparr> model := model', optimizer := opt'', n_iter := n_iter',
                          mean_val_score := Some mvs \<rparr>
            in
            if score_improved (minimize_score args) mvs (best_score st)
            then (Inr (st'\<lparr> best_score := mvs, best_epoch := epoch \<rparr>),
                  save_checkpoint ckpt_path model' (scaler p) (features_scaler p)
                    (atom_descriptor_scaler p) (bond_feature_scaler p) args w2)
            else (Inr st', w2))))"

fun epoch_loop ::
  "('d, 'm, 'o, 's, 't, 'r) collaborators \<Rightarrow> ('d, 's) prepared \<Rightarrow> nat \<Rightarrow> string \<Rightarrow> nat list
     \<Rightarrow> ('m, 'o) loop_state \<Rightarrow> ('m, 's, 'r) world
     \<Rightarrow> (py_error + ('m, 'o) loop_state) \<times> ('m, 's, 'r) world" where
  "epoch_loop env p model_idx ckpt_path [] st w = (Inr st, w)"
| "epoch_loop env p model_idx ckpt_path (epoch # rest) st w =
     (case run_epoch env p model_idx ckpt_path epoch st w of
        (Inl e, w') \<Rightarrow> (Inl e, w')
      | (Inr st', w') \<Rightarrow> epoch_loop env p model_idx ckpt_path rest st' w')"

subsection \<open>One ensemble member (lines 261 to 416)\<close>

definition member_save_dir :: "train_args \<Rightarrow> nat \<Rightarrow> string" where
  "member_save_dir args model_idx = os_path_join (save_dir args) (''model_'' @ str_nat model_idx)"

definition member_checkpoint_path ::
  "('d, 'm, 'o, 's, 't, 'r) collaborators \<Rightarrow> train_args \<Rightarrow> nat \<Rightarrow> string" where
  "member_checkpoint_path env args model_idx =
     os_path_join (member_save_dir args model_idx) (MODEL_FILE_NAME env)"

text \<open>Lines 270 to 293: load or build the model, optionally overwrite frozen weights.\<close>

definition member_build ::
  "('d, 'm, 'o, 's, 't, 'r) collaborators \<Rightarrow> ('d, 's) prepared \<Rightarrow> nat \<Rightarrow> ('m, 's, 'r) world
     \<Rightarrow> (py_error + 'm) \<times> ('m, 's, 'r) world" where
  "member_build env p model_idx w =
     (let args = p_args p in
      case (case checkpoint_paths args of
              Some paths \<Rightarrow>
                (if model_idx < length paths then load_checkpoint (paths ! model_idx) w
                 else (Inl IndexError, w))
            | None \<Rightarrow>
                (case MoleculeModel env args (rng w) of (m, r) \<Rightarrow> (Inr m, w\<lparr> rng := r \<rparr>))) of
        (Inl e, w') \<Rightarrow> (Inl e, w')
      | (Inr m, w') \<Rightarrow>
          (Inr (case checkpoint_frzn args of
                  Some path \<Rightarrow> load_frzn_model env m path args
                | None \<Rightarrow> m), w'))"

text \<open>
  Lines 295 to 370: the checkpoint saved before training (the source's comment: ensure that model is saved
  in correct location for evaluation if 0 epochs), the optimizer, the initial best score,
  the epoch loop over \<^verbatim>\<open>range(args.epochs)\<close>.
\<close>

definition initial_state ::
  "('d, 'm, 'o, 's, 't, 'r) collaborators \<Rightarrow> train_args \<Rightarrow> 'm \<Rightarrow> pyfloat option \<Rightarrow> ('m, 'o) loop_state" where
  "initial_state env args m mvs =
     \<lparr> model = m, optimizer = build_optimizer env m args,
       best_score = (if minimize_score args then PosInf else NegInf),
       best_epoch = 0, n_iter = 0, mean_val_score = mvs \<rparr>"

definition member_train ::
  "('d, 'm, 'o, 's, 't, 'r) collaborators \<Rightarrow> ('d, 's) prepared \<Rightarrow> nat \<Rightarrow> 'm \<Rightarrow> pyfloat option
     \<Rightarrow> ('m, 's, 'r) world \<Rightarrow> (py_error + ('m, 'o) loop_state) \<times> ('m, 's, 'r) world" where
  "member_train env p model_idx m mvs w =
     (let args = p_args p;
          ckpt_path = member_checkpoint_path env args model_idx;
          w1 = save_checkpoint ckpt_path m (scaler p) (features_scaler p)
                 (atom_descriptor_scaler p) (bond_feature_scaler p) args w
      in epoch_loop env p model_idx ckpt_path [0..<nat (epochs args)]
           (initial_state env args m mvs) w1)"

text \<open>
  Lines 372 to 416: reload the checkpoint, predict and evaluate on the test set, add the
  predictions to \<^verbatim>\<open>sum_test_preds\<close>. With Neptune logging the loop over
  \<^verbatim>\<open>test_scores.items()\<close> reads \<^verbatim>\<open>mean_val_score\<close>.
\<close>

definition member_test ::
  "('d, 'm, 'o, 's, 't, 'r) collaborators \<Rightarrow> ('d, 's) prepared \<Rightarrow> bool \<Rightarrow> nat \<Rightarrow> pyfloat option
     \<Rightarrow> ndarray \<Rightarrow> ('m, 's, 'r) world \<Rightarrow> (py_error + ndarray) \<times> ('m, 's, 'r) world" where
  "member_test env p empty_test_set model_idx mvs sum_test_preds w =
     (let args = p_args p in
      case load_checkpoint (member_checkpoint_path env args model_idx) w of
        (Inl e, w') \<Rightarrow> (Inl e, w')
      | (Inr m, w') \<Rightarrow>
          (if empty_test_set then (Inr sum_test_preds, w')
           else
             (let test_preds = predict env m (test_data p) (scaler p);
                  w'' = emit (EvPredict model_idx test_preds) w';
                  test_scores = evaluate_predictions env test_preds (targets env (test_data p))
                                  (num_tasks args) (metrics args) (dataset_type args)
                                  (gt_targets env (test_data p)) (lt_targets env (test_data p))
              in
              (case (if nd_len test_preds \<noteq> 0 then nd_iadd sum_test_preds test_preds
                     else Inr sum_test_preds) of
                 Inl e \<Rightarrow> (Inl e, w'')
               | Inr sum_test_preds' \<Rightarrow>
                   (if neptune_logging args \<and> test_scores \<noteq> [] \<and> mvs = None
                    then (Inl (UnboundLocalError ''mean_val_score''), w'')
                    else (Inr sum_test_preds', w''))))))"

definition run_member ::
  "('d, 'm, 'o, 's, 't, 'r) collaborators \<Rightarrow> ('d, 's) prepared \<Rightarrow> bool \<Rightarrow> nat
     \<Rightarrow> ndarray \<times> pyfloat option \<Rightarrow> ('m, 's, 'r) world
     \<Rightarrow> (py_error + ndarray \<times> pyfloat option) \<times> ('m, 's, 'r) world" where
  "run_member env p empty_test_set model_idx acc w =
     (case acc of (sum_test_preds, mvs) \<Rightarrow>
      (case member_build env p model_idx w of
         (Inl e, w1) \<Rightarrow> (Inl e, w1)
       | (Inr m, w1) \<Rightarrow>
      (case member_train env p model_idx m mvs w1 of
         (Inl e, w2) \<Rightarrow> (Inl e, w2)
       | (Inr st, w2) \<Rightarrow>
      (case member_test env p empty_test_set model_idx (mean_val_score st) sum_test_preds w2 of
         (Inl e, w3) \<Rightarrow> (Inl e, w3)
       | (Inr sum_test_preds', w3) \<Rightarrow> (Inr (sum_test_preds', mean_val_score st), w3)))))"

text \<open>\<^verbatim>\<open>for model_idx in range(args.ensemble_size)\<close>\<close>

fun ensemble_loop ::
  "('d, 'm, 'o, 's, 't, 'r) collaborators \<Rightarrow> ('d, 's) prepared \<Rightarrow> bool \<Rightarrow> nat list
     \<Rightarrow> ndarray \<times> pyfloat option \<Rightarrow> ('m, 's, 'r) world
     \<Rightarrow> (py_error + ndarray \<times> pyfloat option) \<times> ('m, 's, 'r) world" where
  "ensemble_loop env p empty_test_set [] acc w = (Inr acc, w)"
| "ensemble_loop env p empty_test_set (model_idx # rest) acc w =
     (case run_member env p empty_test_set model_idx acc w of
        (Inl e, w') \<Rightarrow> (Inl e, w')
      | (Inr acc', w') \<Rightarrow> ensemble_loop env p empty_test_set rest acc' w')"

subsection \<open>The ensemble's scores and the files (lines 418 to 468)\<close>

text \<open>
  \<^verbatim>\<open>{metric: [np.nan for task in args.task_names] for metric in args.metrics}\<close>
\<close>

definition nan_scores :: "train_args \<Rightarrow> scores" where
  "nan_scores args =
     foldl (\<lambda>d m. AList.update m (map (\<lambda>task. NaN) (task_names args)) d) [] (metrics args)"

definition average_test_preds :: "train_args \<Rightarrow> ndarray \<Rightarrow> ndarray" where
  "average_test_preds args sum_test_preds = nd_div sum_test_preds (ensemble_size args)"

definition ensemble_evaluate ::
  "('d, 'm, 'o, 's, 't, 'r) collaborators \<Rightarrow> ('d, 's) prepared \<Rightarrow> bool \<Rightarrow> ndarray \<Rightarrow> scores" where
  "ensemble_evaluate env p empty_test_set sum_test_preds =
     (let args = p_args p in
      if empty_test_set then nan_scores args
      else evaluate_predictions env (average_test_preds args sum_test_preds)
             (targets env (test_data p)) (num_tasks args) (metrics args) (dataset_type args)
             (gt_targets env (test_data p)) (lt_targets env (test_data p)))"

text \<open>\<^verbatim>\<open>json.dump(ensemble_scores, f, indent=4, sort_keys=True)\<close>: the items sorted by key.\<close>

definition json_dump_sorted :: "scores \<Rightarrow> scores" where
  "json_dump_sorted d = sort_key fst d"

definition scores_path :: "train_args \<Rightarrow> string" where
  "scores_path args = os_path_join (save_dir args) ''test_scores.json''"

definition preds_path :: "train_args \<Rightarrow> string" where
  "preds_path args = os_path_join (save_dir args) ''test_preds.csv''"

text \<open>
  Lines 437 to 468. With Neptune logging the loop over \<^verbatim>\<open>ensemble_scores.items()\<close>
  reads \<^verbatim>\<open>mean_val_score\<close>.
\<close>

definition finish ::
  "('d, 'm, 'o, 's, 't, 'r) collaborators \<Rightarrow> ('d, 's) prepared \<Rightarrow> bool \<Rightarrow> ndarray
     \<Rightarrow> pyfloat option \<Rightarrow> ('m, 's, 'r) world \<Rightarrow> (py_error + scores) \<times> ('m, 's, 'r) world" where
  "finish env p empty_test_set sum_test_preds mvs w =
     (let args = p_args p;
          ensemble_scores = ensemble_evaluate env p empty_test_set sum_test_preds
      in
      if neptune_logging args \<and> ensemble_scores \<noteq> [] \<and> mvs = None
      then (Inl (UnboundLocalError ''mean_val_score''), w)
      else
        let w1 = emit (EvWriteScores (scores_path args))
                   (w\<lparr> files := (files w)(scores_path args \<mapsto>
                                   ScoresJson (json_dump_sorted ensemble_scores)) \<rparr>);
            w2 = (if save_preds args \<and> \<not> empty_test_set
                  then emit (EvWritePreds (preds_path args))
                         (w1\<lparr> files := (files w1)(preds_path args \<mapsto>
                                 PredsCsv (map (smiles env) (test_data p)) (task_names args)
                                   (average_test_preds args sum_test_preds)) \<rparr>)
                  else w1)
        in (Inr ensemble_scores, w2))"

subsection \<open>The function\<close>

definition initial_sum_test_preds :: "train_args \<Rightarrow> nat \<Rightarrow> ndarray" where
  "initial_sum_test_preds args n =
     (if dataset_type args = ''multiclass''
      then np_zeros_shape [n, num_tasks args, multiclass_num_classes args]
      else np_zeros_shape [n, num_tasks args])"

definition run_training ::
  "('d, 'm, 'o, 's, 't, 'r) collaborators \<Rightarrow> train_args \<Rightarrow> 'd list \<Rightarrow> ('m, 's, 'r) world
     \<Rightarrow> (py_error + scores) \<times> ('m, 's, 'r) world" where
  "run_training env args data w =
     (let w1 = w\<lparr> rng := manual_seed env (pytorch_seed args) (rng w) \<rparr>;
          p0 = prepare_features env args data;
          w2 = (if save_smiles_splits args then emit EvSaveSplits w1 else w1)
      in
      if length (val_data p0) = 0 then (Inl (ValueError val_empty_message), w2)
      else
        let empty_test_set = (length (test_data p0) = 0);
            p = prepare_targets env p0;
            test_smiles = map (smiles env) (test_data p);
            sum_test_preds = initial_sum_test_preds (p_args p) (length test_smiles)
        in
        case ensemble_loop env p empty_test_set [0..<nat (ensemble_size (p_args p))]
               (sum_test_preds, None) w2 of
          (Inl e, w3) \<Rightarrow> (Inl e, w3)
        | (Inr (sum_test_preds', mvs), w3) \<Rightarrow> finish env p empty_test_set sum_test_preds' mvs w3)"

section \<open>Notions used to state the properties of a run\<close>

text \<open>The checkpoint that \<^const>\<open>save_checkpoint\<close> writes for a model.\<close>

definition checkpoint_of :: "('d, 's) prepared \<Rightarrow> 'm \<Rightarrow> ('m, 's) checkpoint" where
  "checkpoint_of p m =
     \<lparr> ck_model = m, ck_scaler = scaler p, ck_features_scaler = features_scaler p,
       ck_atom_descriptor_scaler = atom_descriptor_scaler p,
       ck_bond_feature_scaler = bond_feature_scaler p, ck_args = p_args p \<rparr>"

text \<open>
  Training and validation without the checkpoints: for each epoch that runs, the primary
  metric's mean validation score and the model after the epoch's training. Checkpoints
  do not feed back into training, so this is what the epoch loop sees.
\<close>

fun validation_trajectory ::
  "('d, 'm, 'o, 's, 't, 'r) collaborators \<Rightarrow> ('d, 's) prepared \<Rightarrow> nat \<Rightarrow> nat list
     \<Rightarrow> 'm \<Rightarrow> 'o \<Rightarrow> nat \<Rightarrow> 'r \<Rightarrow> (pyfloat \<times> 'm) list" where
  "validation_trajectory env p model_idx [] m opt n r = []"
| "validation_trajectory env p model_idx (epoch # rest) m opt n r =
     (case train env m opt (train_data p) (p_args p) n model_idx r of
        (m', opt', n', r') \<Rightarrow>
          (case map_of (evaluate env m' (val_data p) (num_tasks (p_args p)) (metrics (p_args p))
                          (dataset_type (p_args p)) (scaler p)) (metric (p_args p)) of
             None \<Rightarrow> []
           | Some primary_scores \<Rightarrow>
               (multitask_mean env primary_scores (metric (p_args p)), m') #
               validation_trajectory env p model_idx rest m'
                 (if is_ExponentialLR env opt' then scheduler_step env opt' else opt') n' r'))"

text \<open>
  The best score seen so far, starting from \<open>best\<close>, after the scores \<open>ss\<close>; and whether
  the score of epoch \<open>i\<close> strictly improves on the best seen before it.
\<close>

definition best_so_far :: "bool \<Rightarrow> pyfloat \<Rightarrow> pyfloat list \<Rightarrow> pyfloat" where
  "best_so_far minimize best ss =
     foldl (\<lambda>b s. if score_improved minimize s b then s else b) best ss"

definition strictly_improves_at :: "bool \<Rightarrow> pyfloat \<Rightarrow> pyfloat list \<Rightarrow> nat \<Rightarrow> bool" where
  "strictly_improves_at minimize best ss i =
     score_improved minimize (ss ! i) (best_so_far minimize best (take i ss))"

text \<open>The events of epoch number \<open>i\<close> of a member, given the trajectory.\<close>

definition epoch_events ::
  "('d, 's) prepared \<Rightarrow> string \<Rightarrow> nat \<Rightarrow> pyfloat \<Rightarrow> nat list \<Rightarrow> (pyfloat \<times> 'm) list \<Rightarrow> nat
     \<Rightarrow> ('m, 's) event list" where
  "epoch_events p path model_idx best es obs i =
     [EvTrain model_idx (es ! i), EvValidate model_idx (es ! i) (fst (obs ! i))] @
     (if strictly_improves_at (minimize_score (p_args p)) best (map fst obs) i
      then [EvSaveCheckpoint path (checkpoint_of p (snd (obs ! i)))] else [])"

text \<open>The epochs that save a checkpoint.\<close>

definition saving_epochs :: "bool \<Rightarrow> pyfloat \<Rightarrow> pyfloat list \<Rightarrow> nat list" where
  "saving_epochs minimize best ss =
     filter (strictly_improves_at minimize best ss) [0..<length ss]"

text \<open>The test predictions of the members, from the events of a run.\<close>

fun member_preds :: "('m, 's) event list \<Rightarrow> ndarray list" where
  "member_preds [] = []"
| "member_preds (EvPredict model_idx preds # rest) = preds # member_preds rest"
| "member_preds (ev # rest) = member_preds rest"

fun is_write_scores :: "('m, 's) event \<Rightarrow> bool" where
  "is_write_scores (EvWriteScores path) = True"
| "is_write_scores ev = False"

fun is_write_preds :: "('m, 's) event \<Rightarrow> bool" where
  "is_write_preds (EvWritePreds path) = True"
| "is_write_preds ev = False"

fun is_training :: "('m, 's) event \<Rightarrow> bool" where
  "is_training (EvTrain model_idx epoch) = True"
| "is_training (EvSaveCheckpoint path ck) = True"
| "is_training ev = False"

text \<open>The events of a member's training and of loading its checkpoint.\<close>

fun is_member_event :: "('m, 's) event \<Rightarrow> bool" where
  "is_member_event (EvTrain model_idx epoch) = True"
| "is_member_event (EvValidate model_idx epoch s) = True"
| "is_member_event (EvSaveCheckpoint path ck) = True"
| "is_member_event (EvLoadCheckpoint path) = True"
| "is_member_event ev = False"

fun is_predict :: "('m, 's) event \<Rightarrow> bool" where
  "is_predict (EvPredict model_idx preds) = True"
| "is_predict ev = False"

text \<open>
  What \<^verbatim>\<open>predict\<close> promises: one row per datapoint and one entry per task (and per
  class, for multiclass data), the shape of \<^verbatim>\<open>sum_test_preds\<close>.
\<close>

definition predict_shape_ok ::
  "('d, 'm, 'o, 's, 't, 'r) collaborators \<Rightarrow> ('d, 's) prepared \<Rightarrow> bool" where
  "predict_shape_ok env p =
     (\<forall>m. shape (predict env m (test_data p) (scaler p))
            = shape (initial_sum_test_preds (p_args p) (length (test_data p)))
         \<and> length (cells (predict env m (test_data p) (scaler p)))
            = prod_list (shape (initial_sum_test_preds (p_args p) (length (test_data p)))))"


subsection \<open>Toy collaborators for concrete runs\<close>

text \<open>
  Datapoints, weights, optimizer states and generator states are numbers. The split
  sends a datapoint to train, validation or test by its remainder modulo 3; training adds
  one to the weights; the validation loss is 1 for weights below 3 and 0 from there on;
  a prediction is the sum of the weights and the datapoint.
\<close>

definition toy_env :: "(nat, nat, nat, nat, nat list, nat) collaborators" where
  "toy_env =
     \<lparr> manual_seed = (\<lambda>seed r. nat \<bar>seed\<bar>),
       get_data = (\<lambda>role args. []),
       split_data = (\<lambda>ds args. (filter (\<lambda>d. d mod 3 = 0) ds, filter (\<lambda>d. d mod 3 = 1) ds,
                                 filter (\<lambda>d. d mod 3 = 2) ds)),
       get_class_sizes = (\<lambda>ds proportion. []),
       fit_scaler = (\<lambda>kind ds. length ds),
       apply_scaler = (\<lambda>kind sc d. d),
       fit_target_scaler = (\<lambda>ds. length ds),
       scale_targets = (\<lambda>sc d. d),
       load_phase_mask = (\<lambda>path. None),
       normalize_spectrum = (\<lambda>phase_mask d. d),
       smiles = (\<lambda>d. [replicate (Suc d) CHR ''C'']),
       targets = (\<lambda>ds. ds),
       gt_targets = (\<lambda>ds. []),
       lt_targets = (\<lambda>ds. []),
       MoleculeModel = (\<lambda>args r. (r, Suc r)),
       load_frzn_model = (\<lambda>m path args. m),
       build_optimizer = (\<lambda>m args. 0),
       train = (\<lambda>m opt ds args n model_idx r. (Suc m, Suc opt, n + length ds, Suc r)),
       is_ExponentialLR = (\<lambda>opt. False),
       scheduler_step = (\<lambda>opt. opt),
       evaluate = (\<lambda>m ds T ms dt sc. map (\<lambda>name. (name, replicate T (Fin (if m < 3 then 1 else 0)))) ms),
       multitask_mean = (\<lambda>ss name. case ss of [] \<Rightarrow> NaN | x # xs \<Rightarrow> x),
       predict = (\<lambda>m ds sc. \<lparr> shape = [length ds, 1], cells = map (\<lambda>d. Fin (real (m + d))) ds \<rparr>),
       evaluate_predictions =
         (\<lambda>preds tg T ms dt gt lt.
            map (\<lambda>name. (name, replicate T (case cells preds of [] \<Rightarrow> NaN | x # xs \<Rightarrow> x))) ms),
       MODEL_FILE_NAME = ''model.pt'' \<rparr>"

definition toy_args :: train_args where
  "toy_args =
     \<lparr> neptune_logging = False, pytorch_seed = 0,
       separate_test_path = None, separate_val_path = None,
       dataset_type = ''regression'', save_smiles_splits = False,
       features_scaling = True, atom_descriptor_scaling = False, atom_descriptors = None,
       bond_feature_scaling = False, bond_features_size = 0, spectra_phase_mask_path = None,
       num_tasks = 1, multiclass_num_classes = 3, task_names = [''task''],
       metric = ''rmse'', metrics = [''rmse'', ''mae''], minimize_score = True,
       epochs = 4, ensemble_size = 2, save_dir = ''out'',
       checkpoint_paths = None, checkpoint_frzn = None, save_preds = False,
       train_class_sizes = None, train_data_size = 0, spectra_phase_mask = None \<rparr>"

definition toy_world :: "(nat, nat, nat) world" where
  "toy_world = \<lparr> files = Map.empty, rng = 0, trace = [] \<rparr>"

section \<open>Properties of the features generators\<close>

subsection \<open>Auxiliary facts\<close>

lemma map_of_module_registry:
  "map_of (module_registry rd lib) ''morgan'' =
     Some (\<lambda>mol_data. morgan_binary_features_generator rd mol_data MORGAN_RADIUS MORGAN_NUM_BITS)"
  "map_of (module_registry rd lib) ''morgan_count'' =
     Some (\<lambda>mol_data. morgan_counts_features_generator rd mol_data MORGAN_RADIUS MORGAN_NUM_BITS)"
  "map_of (module_registry rd lib) ''rdkit_2d'' = Some (rdkit_2d_features_generator rd lib)"
  "map_of (module_registry rd lib) ''rdkit_2d_normalized'' =
     Some (rdkit_2d_normalized_features_generator rd lib)"
  by (simp_all add: module_registry_def register_features_generator_def
      FEATURES_GENERATOR_REGISTRY_def Let_def)

lemma morgan_binary_vec_valid:
  "valid_molecule rd m \<Longrightarrow> \<exists>f. morgan_binary_vec rd m r n = Inr f"
  by (auto simp: valid_molecule_def morgan_binary_vec_def to_mol_def Let_def
      split: molecule.splits option.splits)

lemma morgan_binary_datapoint_acc:
  "\<forall>m \<in> set ms. valid_molecule rd m \<Longrightarrow>
   \<exists>rows. morgan_binary_datapoint rd r n ms acc = Inr (acc @ rows) \<and> length rows = length ms
     \<and> (\<forall>i < length ms. morgan_binary_vec rd (ms ! i) r n = Inr (rows ! i))"
proof (induction ms arbitrary: acc)
  case Nil
  then show ?case by simp
next
  case (Cons m ms)
  from Cons.prems have vm: "valid_molecule rd m"
    and vms: "\<forall>m \<in> set ms. valid_molecule rd m" by simp_all
  from morgan_binary_vec_valid[OF vm] obtain f where f: "morgan_binary_vec rd m r n = Inr f"
    by blast
  from Cons.IH[OF vms, of "acc @ [f]"] obtain rows where
    rows: "morgan_binary_datapoint rd r n ms (acc @ [f]) = Inr ((acc @ [f]) @ rows)"
      "length rows = length ms"
      "\<forall>i < length ms. morgan_binary_vec rd (ms ! i) r n = Inr (rows ! i)"
    by blast
  show ?case
  proof (intro exI[of _ "f # rows"] conjI allI impI)
    show "morgan_binary_datapoint rd r n (m # ms) acc = Inr (acc @ f # rows)"
      using f rows(1) by simp
    show "length (f # rows) = length (m # ms)" using rows(2) by simp
    fix i assume "i < length (m # ms)"
    then show "morgan_binary_vec rd ((m # ms) ! i) r n = Inr ((f # rows) ! i)"
      using f rows(3) by (cases i) auto
  qed
qed

lemma morgan_binary_loop_acc:
  "\<forall>m \<in> set (concat gs). valid_molecule rd m \<Longrightarrow>
   \<exists>rows. morgan_binary_loop rd r n gs acc = Inr (acc @ rows) \<and> length rows = length (concat gs)
     \<and> (\<forall>i < length (concat gs). morgan_binary_vec rd (concat gs ! i) r n = Inr (rows ! i))"
proof (induction gs arbitrary: acc)
  case Nil
  then show ?case by simp
next
  case (Cons g gs)
  from Cons.prems have vg: "\<forall>m \<in> set g. valid_molecule rd m"
    and vgs: "\<forall>m \<in> set (concat gs). valid_molecule rd m" by simp_all
  from morgan_binary_datapoint_acc[OF vg, of r n "[]"] obtain e where
    e: "morgan_binary_datapoint rd r n g [] = Inr e" "length e = length g"
       "\<forall>i < length g. morgan_binary_vec rd (g ! i) r n = Inr (e ! i)" by auto
  from Cons.IH[OF vgs, of "acc @ e"] obtain rows where
    rows: "morgan_binary_loop rd r n gs (acc @ e) = Inr ((acc @ e) @ rows)"
      "length rows = length (concat gs)"
      "\<forall>i < length (concat gs). morgan_binary_vec rd (concat gs ! i) r n = Inr (rows ! i)"
    by blast
  show ?case
  proof (intro exI[of _ "e @ rows"] conjI allI impI)
    show "morgan_binary_loop rd r n (g # gs) acc = Inr (acc @ e @ rows)"
      using e(1) rows(1) by simp
    show "length (e @ rows) = length (concat (g # gs))" using e(2) rows(2) by simp
    fix i assume i: "i < length (concat (g # gs))"
    show "morgan_binary_vec rd (concat (g # gs) ! i) r n = Inr ((e @ rows) ! i)"
    proof (cases "i < length g")
      case True
      then show ?thesis using e by (simp add: nth_append)
    next
      case False
      then show ?thesis using e(2) rows(3) i by (simp add: nth_append)
    qed
  qed
qed

lemma morgan_binary_grouped:
  assumes "\<forall>m \<in> set (concat gs). valid_molecule rd m"
  shows "\<exists>rows. morgan_binary_features_generator rd (Grouped gs) r n = Inr (Mat rows)
     \<and> length rows = length (concat gs)
     \<and> (\<forall>i < length (concat gs).
           morgan_binary_features_generator rd (Single (concat gs ! i)) r n = Inr (Vec (rows ! i)))"
proof -
  from morgan_binary_loop_acc[OF assms, of r n "[]"] obtain rows where
    rows: "morgan_binary_loop rd r n gs [] = Inr rows" "length rows = length (concat gs)"
      "\<forall>i < length (concat gs). morgan_binary_vec rd (concat gs ! i) r n = Inr (rows ! i)"
    by auto
  show ?thesis
    by (rule exI[of _ rows])
       (simp add: morgan_binary_features_generator_def np_array_def rows)
qed

lemma morgan_counts_vec_valid:
  "valid_molecule rd m \<Longrightarrow> \<exists>f. morgan_counts_vec rd m r n = Inr f"
  by (auto simp: valid_molecule_def morgan_counts_vec_def to_mol_def Let_def
      split: molecule.splits option.splits)

lemma morgan_counts_datapoint_acc:
  "\<forall>m \<in> set ms. valid_molecule rd m \<Longrightarrow>
   \<exists>rows. morgan_counts_datapoint rd r n ms acc = Inr (acc @ rows) \<and> length rows = length ms
     \<and> (\<forall>i < length ms. morgan_counts_vec rd (ms ! i) r n = Inr (rows ! i))"
proof (induction ms arbitrary: acc)
  case Nil
  then show ?case by simp
next
  case (Cons m ms)
  from Cons.prems have vm: "valid_molecule rd m"
    and vms: "\<forall>m \<in> set ms. valid_molecule rd m" by simp_all
  from morgan_counts_vec_valid[OF vm] obtain f where f: "morgan_counts_vec rd m r n = Inr f"
    by blast
  from Cons.IH[OF vms, of "acc @ [f]"] obtain rows where
    rows: "morgan_counts_datapoint rd r n ms (acc @ [f]) = Inr ((acc @ [f]) @ rows)"
      "length rows = length ms"
      "\<forall>i < length ms. morgan_counts_vec rd (ms ! i) r n = Inr (rows ! i)"
    by blast
  show ?case
  proof (intro exI[of _ "f # rows"] conjI allI impI)
    show "morgan_counts_datapoint rd r n (m # ms) acc = Inr (acc @ f # rows)"
      using f rows(1) by simp
    show "length (f # rows) = length (m # ms)" using rows(2) by simp
    fix i assume "i < length (m # ms)"
    then show "morgan_counts_vec rd ((m # ms) ! i) r n = Inr ((f # rows) ! i)"
      using f rows(3) by (cases i) auto
  qed
qed

lemma morgan_counts_loop_acc:
  "\<forall>m \<in> set (concat gs). valid_molecule rd m \<Longrightarrow>
   \<exists>rows. morgan_counts_loop rd r n gs acc = Inr (acc @ rows) \<and> length rows = length (concat gs)
     \<and> (\<forall>i < length (concat gs). morgan_counts_vec rd (concat gs ! i) r n = Inr (rows ! i))"
proof (induction gs arbitrary: acc)
  case Nil
  then show ?case by simp
next
  case (Cons g gs)
  from Cons.prems have vg: "\<forall>m \<in> set g. valid_molecule rd m"
    and vgs: "\<forall>m \<in> set (concat gs). valid_molecule rd m" by simp_all
  from morgan_counts_datapoint_acc[OF vg, of r n "[]"] obtain e where
    e: "morgan_counts_datapoint rd r n g [] = Inr e" "length e = length g"
       "\<forall>i < length g. morgan_counts_vec rd (g ! i) r n = Inr (e ! i)" by auto
  from Cons.IH[OF vgs, of "acc @ e"] obtain rows where
    rows: "morgan_counts_loop rd r n gs (acc @ e) = Inr ((acc @ e) @ rows)"
      "length rows = length (concat gs)"
      "\<forall>i < length (concat gs). morgan_counts_vec rd (concat gs ! i) r n = Inr (rows ! i)"
    by blast
  show ?case
  proof (intro exI[of _ "e @ rows"] conjI allI impI)
    show "morgan_counts_loop rd r n (g # gs) acc = Inr (acc @ e @ rows)"
      using e(1) rows(1) by simp
    show "length (e @ rows) = length (concat (g # gs))" using e(2) rows(2) by simp
    fix i assume i: "i < length (concat (g # gs))"
    show "morgan_counts_vec rd (concat (g # gs) ! i) r n = Inr ((e @ rows) ! i)"
    proof (cases "i < length g")
      case True
      then show ?thesis using e by (simp add: nth_append)
    next
      case False
      then show ?thesis using e(2) rows(3) i by (simp add: nth_append)
    qed
  qed
qed

lemma morgan_counts_grouped:
  assumes "\<forall>m \<in> set (concat gs). valid_molecule rd m"
  shows "\<exists>rows. morgan_counts_features_generator rd (Grouped gs) r n = Inr (Mat rows)
     \<and> length rows = length (concat gs)
     \<and> (\<forall>i < length (concat gs).
           morgan_counts_features_generator rd (Single (concat gs ! i)) r n = Inr (Vec (rows ! i)))"
proof -
  from morgan_counts_loop_acc[OF assms, of r n "[]"] obtain rows where
    rows: "morgan_counts_loop rd r n gs [] = Inr rows" "length rows = length (concat gs)"
      "\<forall>i < length (concat gs). morgan_counts_vec rd (concat gs ! i) r n = Inr (rows ! i)"
    by auto
  show ?thesis
    by (rule exI[of _ rows])
       (simp add: morgan_counts_features_generator_def np_array_def rows)
qed

lemma toy_valid: "valid_molecule toy_rdkit m = (m \<noteq> Smiles [])"
  by (cases m) (simp_all add: valid_molecule_def toy_rdkit_def)


subsection \<open>The registry\<close>

text \<open>
  C5. Registering a generator under a name and getting the name returns that generator,
  and the decorator returns it too. Registering again under a name in use replaces the
  entry without adding a key, and leaves the other names alone. Getting a name that is
  not in the registry raises \<^verbatim>\<open>ValueError\<close> (the error the specification calls
  NotFoundError), with a message that ends by suggesting to install descriptastorus.
\<close>

theorem registry_round_trip:
  "get_features_generator (fst (register_features_generator name f reg)) name = Inr f
   \<and> snd (register_features_generator name f reg) = f
   \<and> get_features_generator
       (fst (register_features_generator name g (fst (register_features_generator name f reg)))) name = Inr g
   \<and> map fst (fst (register_features_generator name g (fst (register_features_generator name f reg))))
       = map fst (fst (register_features_generator name f reg))
   \<and> (other \<noteq> name \<longrightarrow>
        get_features_generator (fst (register_features_generator name f reg)) other
          = get_features_generator reg other)
   \<and> (name \<notin> set (get_available_features_generators reg) \<longrightarrow>
        get_features_generator reg name = Inl (ValueError (not_found_message name)))
   \<and> suffix ''you may need to install descriptastorus.'' (not_found_message name)"
proof -
  have absent: "name \<notin> set (get_available_features_generators reg) \<Longrightarrow> map_of reg name = None"
    by (simp add: get_available_features_generators_def map_of_eq_None_iff)
  have keys: "map fst (AList.update name g (AList.update name f reg)) = map fst (AList.update name f reg)"
    by (simp add: AList.update_keys)
  have msg: "suffix ''you may need to install descriptastorus.'' (not_found_message name)"
    unfolding not_found_message_def suffix_def
    by (rule exI[of _ "''Features generator \"'' @ name @ ''\" could not be found. '' @ ''If this generator relies on rdkit features, ''"]) simp
  show ?thesis
    using absent keys msg
    by (simp add: get_features_generator_def register_features_generator_def AList.update_conv')
qed

theorem registry_round_trip_witness:
  "get_features_generator (fst (register_features_generator ''morgan'' (1::nat) [(''custom'', 7)])) ''morgan'' = Inr 1
   \<and> get_features_generator (fst (register_features_generator ''morgan'' (1::nat) [(''custom'', 7)])) ''custom'' = Inr 7
   \<and> get_features_generator [(''custom'', 7::nat)] ''morgan'' = Inl (ValueError (not_found_message ''morgan''))"
  using registry_round_trip [of "''morgan''" "1::nat" "[(''custom'', 7)]" 2 "''custom''"]
  by (simp add: get_features_generator_def get_available_features_generators_def)

text \<open>
  C6. Whether descriptastorus can be imported or not, the names \<^verbatim>\<open>rdkit_2d\<close> and
  \<^verbatim>\<open>rdkit_2d_normalized\<close> are in the registry and getting them succeeds. When the
  import failed, the generators registered are placeholders: on every input they raise
  \<^verbatim>\<open>ImportError\<close> (the error the specification calls DependencyMissingError) with a
  message that names descriptastorus.
\<close>

theorem missing_descriptastorus_placeholders:
  "(\<forall>lib. \<exists>g. get_features_generator (module_registry rd lib) ''rdkit_2d'' = Inr g)
   \<and> (\<forall>lib. \<exists>g. get_features_generator (module_registry rd lib) ''rdkit_2d_normalized'' = Inr g)
   \<and> (\<exists>g. get_features_generator (module_registry rd None) ''rdkit_2d'' = Inr g
          \<and> (\<forall>mol_data. g mol_data = Inl (ImportError rdkit_2d_message)))
   \<and> (\<exists>g. get_features_generator (module_registry rd None) ''rdkit_2d_normalized'' = Inr g
          \<and> (\<forall>mol_data. g mol_data = Inl (ImportError rdkit_2d_normalized_message)))
   \<and> prefix ''Failed to import descriptastorus. Please install descriptastorus '' rdkit_2d_message
   \<and> prefix ''Failed to import descriptastorus. Please install descriptastorus '' rdkit_2d_normalized_message"
  by (simp add: get_features_generator_def map_of_module_registry
      rdkit_2d_features_generator_def rdkit_2d_normalized_features_generator_def
      rdkit_2d_message_def rdkit_2d_normalized_message_def)

subsection \<open>Morgan fingerprints\<close>

text \<open>
  C7. On a list of groups of valid molecules, the binary and the counts generator return
  one row per molecule: as many rows as there are molecules in all groups, and the row
  at position \<open>i\<close> is what the generator returns on the \<open>i\<close>-th molecule of the groups
  concatenated in order.
\<close>

theorem morgan_grouped_flattened:
  assumes "\<forall>m \<in> set (concat groups). valid_molecule rd m"
  shows "(\<exists>rows. morgan_binary_features_generator rd (Grouped groups) radius num_bits = Inr (Mat rows)
            \<and> length rows = sum_list (map length groups)
            \<and> (\<forall>i < length rows.
                 morgan_binary_features_generator rd (Single (concat groups ! i)) radius num_bits
                   = Inr (Vec (rows ! i))))
       \<and> (\<exists>rows. morgan_counts_features_generator rd (Grouped groups) radius num_bits = Inr (Mat rows)
            \<and> length rows = sum_list (map length groups)
            \<and> (\<forall>i < length rows.
                 morgan_counts_features_generator rd (Single (concat groups ! i)) radius num_bits
                   = Inr (Vec (rows ! i))))"
proof -
  have len: "length (concat groups) = sum_list (map length groups)"
    by (simp add: length_concat)
  from morgan_binary_grouped[OF assms, of radius num_bits] obtain rb where
    rb: "morgan_binary_features_generator rd (Grouped groups) radius num_bits = Inr (Mat rb)"
      "length rb = length (concat groups)"
      "\<forall>i < length (concat groups).
         morgan_binary_features_generator rd (Single (concat groups ! i)) radius num_bits
           = Inr (Vec (rb ! i))"
    by blast
  from morgan_counts_grouped[OF assms, of radius num_bits] obtain rc where
    rc: "morgan_counts_features_generator rd (Grouped groups) radius num_bits = Inr (Mat rc)"
      "length rc = length (concat groups)"
      "\<forall>i < length (concat groups).
         morgan_counts_features_generator rd (Single (concat groups ! i)) radius num_bits
           = Inr (Vec (rc ! i))"
    by blast
  have "\<exists>rows. morgan_binary_features_generator rd (Grouped groups) radius num_bits = Inr (Mat rows)
            \<and> length rows = sum_list (map length groups)
            \<and> (\<forall>i < length rows.
                 morgan_binary_features_generator rd (Single (concat groups ! i)) radius num_bits
                   = Inr (Vec (rows ! i)))"
    using rb len by (intro exI[of _ rb]) simp
  moreover
  have "\<exists>rows. morgan_counts_features_generator rd (Grouped groups) radius num_bits = Inr (Mat rows)
            \<and> length rows = sum_list (map length groups)
            \<and> (\<forall>i < length rows.
                 morgan_counts_features_generator rd (Single (concat groups ! i)) radius num_bits
                   = Inr (Vec (rows ! i)))"
    using rc len by (intro exI[of _ rc]) simp
  ultimately show ?thesis by blast
qed

theorem morgan_grouped_flattened_witness:
  "morgan_binary_features_generator toy_rdkit
       (Grouped [[Smiles ''C'', RDMol 2], [], [Smiles ''CCO'']]) 2 4
     = Inr (Mat [[0, 1, 0, 0], [0, 0, 1, 0], [0, 0, 0, 1]])
   \<and> morgan_binary_features_generator toy_rdkit (Single (RDMol 2)) 2 4 = Inr (Vec [0, 0, 1, 0])"
proof -
  have v: "\<forall>m \<in> set (concat [[Smiles ''C'', RDMol 2], [], [Smiles ''CCO'']]). valid_molecule toy_rdkit m"
    by (simp add: toy_valid)
  have run: "morgan_binary_features_generator toy_rdkit
       (Grouped [[Smiles ''C'', RDMol 2], [], [Smiles ''CCO'']]) 2 4
     = Inr (Mat [[0, 1, 0, 0], [0, 0, 1, 0], [0, 0, 0, 1]])"
    by (simp add: morgan_binary_features_generator_def morgan_binary_vec_def to_mol_def
        toy_rdkit_def np_array_def np_zeros_def Let_def upt_rec)
  from morgan_grouped_flattened[OF v, of 2 4] run
  have "morgan_binary_features_generator toy_rdkit
          (Single (concat [[Smiles ''C'', RDMol 2], [], [Smiles ''CCO'']] ! 1)) 2 4
        = Inr (Vec ([[0, 1, 0, 0], [0, 0, 1, 0], [0, 0, 0, 1]] ! 1))"
    by auto
  then show ?thesis using run by simp
qed



section \<open>Properties of a training run\<close>

subsection \<open>Auxiliary facts\<close>

lemma emit_simps [simp]:
  "files (emit ev w) = files w" "rng (emit ev w) = rng w" "trace (emit ev w) = trace w @ [ev]"
  by (simp_all add: emit_def)

lemma save_checkpoint_prepared:
  "save_checkpoint path m (scaler p) (features_scaler p) (atom_descriptor_scaler p)
     (bond_feature_scaler p) (p_args p) w
   = emit (EvSaveCheckpoint path (checkpoint_of p m))
       (w\<lparr> files := (files w)(path \<mapsto> CheckpointFile (checkpoint_of p m)) \<rparr>)"
  by (simp add: save_checkpoint_def checkpoint_of_def Let_def)

lemma checkpoint_of_simps [simp]:
  "ck_model (checkpoint_of p m) = m" "ck_args (checkpoint_of p m) = p_args p"
  "ck_scaler (checkpoint_of p m) = scaler p" "ck_features_scaler (checkpoint_of p m) = features_scaler p"
  "ck_atom_descriptor_scaler (checkpoint_of p m) = atom_descriptor_scaler p"
  "ck_bond_feature_scaler (checkpoint_of p m) = bond_feature_scaler p"
  by (simp_all add: checkpoint_of_def)

lemma load_checkpoint_present:
  "files w path = Some (CheckpointFile ck) \<Longrightarrow>
   load_checkpoint path w = (Inr (ck_model ck), emit (EvLoadCheckpoint path) w)"
  by (simp add: load_checkpoint_def)

lemma flt_irrefl: "\<not> flt x x"
  by (cases x) simp_all

lemma flt_antimono: "\<not> flt s b \<Longrightarrow> flt b' b \<Longrightarrow> \<not> flt s b'"
  by (cases s; cases b; cases b') simp_all

lemma flt_antimono': "\<not> flt b s \<Longrightarrow> flt b b' \<Longrightarrow> \<not> flt b' s"
  by (cases s; cases b; cases b') simp_all

lemma score_improved_irrefl: "\<not> score_improved mn x x"
  by (simp add: score_improved_def flt_irrefl)

lemma score_improved_antimono:
  "\<not> score_improved mn s b \<Longrightarrow> score_improved mn b' b \<Longrightarrow> \<not> score_improved mn s b'"
  unfolding score_improved_def using flt_antimono flt_antimono' by blast

lemma best_so_far_Nil [simp]: "best_so_far mn b [] = b"
  by (simp add: best_so_far_def)

lemma best_so_far_Cons [simp]:
  "best_so_far mn b (s # ss) = best_so_far mn (if score_improved mn s b then s else b) ss"
  by (simp add: best_so_far_def)

lemma strictly_improves_at_0 [simp]:
  "strictly_improves_at mn b (s # ss) 0 = score_improved mn s b"
  by (simp add: strictly_improves_at_def)

lemma strictly_improves_at_Suc [simp]:
  "strictly_improves_at mn b (s # ss) (Suc i)
   = strictly_improves_at mn (if score_improved mn s b then s else b) ss i"
  by (simp add: strictly_improves_at_def)

lemma saving_epochs_Nil [simp]: "saving_epochs mn b [] = []"
  by (simp add: saving_epochs_def)

lemma saving_epochs_Cons:
  "saving_epochs mn b (s # ss)
   = (if score_improved mn s b then [0] else [])
     @ map Suc (saving_epochs mn (if score_improved mn s b then s else b) ss)"
proof -
  have "[0..<length (s # ss)] = 0 # map Suc [0..<length ss]"
    by (simp add: upt_conv_Cons map_Suc_upt del: upt_Suc)
  then show ?thesis
    by (simp add: saving_epochs_def filter_map comp_def del: upt_Suc)
qed

lemma saving_epochs_bound: "i \<in> set (saving_epochs mn b ss) \<Longrightarrow> i < length ss"
  by (simp add: saving_epochs_def)

lemma saving_epochs_mem:
  "i \<in> set (saving_epochs mn b ss) \<longleftrightarrow> i < length ss \<and> strictly_improves_at mn b ss i"
  by (auto simp: saving_epochs_def)

lemma epoch_events_0:
  "epoch_events p path idx b (e # es) ((s, m) # obs) 0
   = [EvTrain idx e, EvValidate idx e s]
     @ (if score_improved (minimize_score (p_args p)) s b
        then [EvSaveCheckpoint path (checkpoint_of p m)] else [])"
  by (simp add: epoch_events_def)

lemma epoch_events_Suc:
  "epoch_events p path idx b (e # es) ((s, m) # obs) (Suc i)
   = epoch_events p path idx (if score_improved (minimize_score (p_args p)) s b then s else b) es obs i"
  by (simp add: epoch_events_def)

lemma run_epoch_Inr:
  assumes "run_epoch env p idx path e st w = (Inr st1, w1)"
  shows "\<exists>s m'.
     (\<forall>es. validation_trajectory env p idx (e # es) (model st) (optimizer st) (n_iter st) (rng w)
          = (s, m') # validation_trajectory env p idx es (model st1) (optimizer st1) (n_iter st1) (rng w1))
   \<and> trace w1 = trace w @ [EvTrain idx e, EvValidate idx e s]
        @ (if score_improved (minimize_score (p_args p)) s (best_score st)
           then [EvSaveCheckpoint path (checkpoint_of p m')] else [])
   \<and> best_score st1 = (if score_improved (minimize_score (p_args p)) s (best_score st) then s else best_score st)
   \<and> best_epoch st1 = (if score_improved (minimize_score (p_args p)) s (best_score st) then e else best_epoch st)
   \<and> files w1 = (if score_improved (minimize_score (p_args p)) s (best_score st)
                 then (files w)(path \<mapsto> CheckpointFile (checkpoint_of p m')) else files w)
   \<and> mean_val_score st1 = Some s"
proof -
  obtain m' opt' n' r' where
    tr: "train env (model st) (optimizer st) (train_data p) (p_args p) (n_iter st) idx (rng w)
         = (m', opt', n', r')"
    by (metis prod_cases4)
  from assms tr obtain ps where
    ev: "map_of (evaluate env m' (val_data p) (num_tasks (p_args p)) (metrics (p_args p))
                   (dataset_type (p_args p)) (scaler p)) (metric (p_args p)) = Some ps"
    by (auto simp: run_epoch_def Let_def split: option.splits)
  define s where "s = multitask_mean env ps (metric (p_args p))"
  have res: "st1 = (if score_improved (minimize_score (p_args p)) s (best_score st)
               then st\<lparr> model := m',
                        optimizer := (if is_ExponentialLR env opt' then scheduler_step env opt' else opt'),
                        n_iter := n', mean_val_score := Some s, best_score := s, best_epoch := e \<rparr>
               else st\<lparr> model := m',
                        optimizer := (if is_ExponentialLR env opt' then scheduler_step env opt' else opt'),
                        n_iter := n', mean_val_score := Some s \<rparr>)"
    and wres: "w1 = (if score_improved (minimize_score (p_args p)) s (best_score st)
               then emit (EvSaveCheckpoint path (checkpoint_of p m'))
                      ((emit (EvValidate idx e s) (emit (EvTrain idx e) (w\<lparr> rng := r' \<rparr>)))
                         \<lparr> files := (files w)(path \<mapsto> CheckpointFile (checkpoint_of p m')) \<rparr>)
               else emit (EvValidate idx e s) (emit (EvTrain idx e) (w\<lparr> rng := r' \<rparr>)))"
    using assms tr ev
    by (simp_all add: run_epoch_def Let_def save_checkpoint_prepared s_def split: if_splits)
  show ?thesis
    by (rule exI[of _ s], rule exI[of _ m']) (simp add: res wres tr ev s_def)
qed

lemma epoch_loop_trajectory:
  assumes "epoch_loop env p idx path es st w = (Inr st', w')"
  shows "length (validation_trajectory env p idx es (model st) (optimizer st) (n_iter st) (rng w))
           = length es
    \<and> trace w' = trace w @ concat (map (epoch_events p path idx (best_score st) es
          (validation_trajectory env p idx es (model st) (optimizer st) (n_iter st) (rng w)))
          [0..<length es])
    \<and> best_score st' = best_so_far (minimize_score (p_args p)) (best_score st)
          (map fst (validation_trajectory env p idx es (model st) (optimizer st) (n_iter st) (rng w)))
    \<and> best_epoch st' =
         (if saving_epochs (minimize_score (p_args p)) (best_score st)
               (map fst (validation_trajectory env p idx es (model st) (optimizer st) (n_iter st) (rng w))) = []
          then best_epoch st
          else es ! last (saving_epochs (minimize_score (p_args p)) (best_score st)
               (map fst (validation_trajectory env p idx es (model st) (optimizer st) (n_iter st) (rng w)))))
    \<and> files w' =
         (if saving_epochs (minimize_score (p_args p)) (best_score st)
               (map fst (validation_trajectory env p idx es (model st) (optimizer st) (n_iter st) (rng w))) = []
          then files w
          else (files w)(path \<mapsto> CheckpointFile (checkpoint_of p
                 (snd (validation_trajectory env p idx es (model st) (optimizer st) (n_iter st) (rng w)
                       ! last (saving_epochs (minimize_score (p_args p)) (best_score st)
               (map fst (validation_trajectory env p idx es (model st) (optimizer st) (n_iter st) (rng w)))))))))
    \<and> (es \<noteq> [] \<longrightarrow> mean_val_score st' \<noteq> None)
    \<and> (es = [] \<longrightarrow> st' = st)"
  using assms
proof (induction es arbitrary: st w)
  case Nil
  then show ?case by simp
next
  case (Cons e es)
  let ?mn = "minimize_score (p_args p)"
  from Cons.prems obtain st1 w1 where
    step: "run_epoch env p idx path e st w = (Inr st1, w1)"
    and rest: "epoch_loop env p idx path es st1 w1 = (Inr st', w')"
    by (auto split: prod.splits sum.splits)
  from run_epoch_Inr[OF step] obtain s m' where
    traj: "\<And>es. validation_trajectory env p idx (e # es) (model st) (optimizer st) (n_iter st) (rng w)
          = (s, m') # validation_trajectory env p idx es (model st1) (optimizer st1) (n_iter st1) (rng w1)"
    and tr1: "trace w1 = trace w @ [EvTrain idx e, EvValidate idx e s]
        @ (if score_improved ?mn s (best_score st)
           then [EvSaveCheckpoint path (checkpoint_of p m')] else [])"
    and bs1: "best_score st1 = (if score_improved ?mn s (best_score st) then s else best_score st)"
    and be1: "best_epoch st1 = (if score_improved ?mn s (best_score st) then e else best_epoch st)"
    and f1: "files w1 = (if score_improved ?mn s (best_score st)
                 then (files w)(path \<mapsto> CheckpointFile (checkpoint_of p m')) else files w)"
    and mv1: "mean_val_score st1 = Some s"
    by blast
  define obs1 where "obs1 = validation_trajectory env p idx es (model st1) (optimizer st1) (n_iter st1) (rng w1)"
  define sv1 where "sv1 = saving_epochs ?mn (best_score st1) (map fst obs1)"
  note IH = Cons.IH[OF rest, folded obs1_def, folded sv1_def]
  have obs: "validation_trajectory env p idx (e # es) (model st) (optimizer st) (n_iter st) (rng w)
       = (s, m') # obs1"
    using traj[of es] by (simp add: obs1_def)
  have sv: "saving_epochs ?mn (best_score st) (s # map fst obs1)
       = (if score_improved ?mn s (best_score st) then [0] else []) @ map Suc sv1"
    by (simp add: saving_epochs_Cons sv1_def bs1)
  have len: "length ((s, m') # obs1) = length (e # es)"
    using IH by simp
  have upt: "[0..<length (e # es)] = 0 # map Suc [0..<length es]"
    by (simp add: upt_conv_Cons map_Suc_upt del: upt_Suc)
  have tr: "trace w' = trace w @ concat (map (epoch_events p path idx (best_score st) (e # es)
          ((s, m') # obs1)) [0..<length (e # es)])"
    using IH tr1 bs1
    by (simp only: upt list.map concat.simps map_map comp_def epoch_events_0 epoch_events_Suc)
       (simp add: bs1)
  have best: "best_score st' = best_so_far ?mn (best_score st) (map fst ((s, m') # obs1))"
    using IH bs1 by simp
  have mvs: "mean_val_score st' \<noteq> None"
    using IH mv1 by (cases "es = []") auto
  have sv1_bound: "sv1 \<noteq> [] \<Longrightarrow> last sv1 < length obs1"
    using saving_epochs_bound[of "last sv1" ?mn "best_score st1" "map fst obs1"]
    by (simp add: sv1_def)
  have bep: "best_epoch st' =
         (if saving_epochs ?mn (best_score st) (map fst ((s, m') # obs1)) = []
          then best_epoch st
          else (e # es) ! last (saving_epochs ?mn (best_score st) (map fst ((s, m') # obs1))))"
    using IH be1 by (simp add: sv last_map last_append)
  have fl: "files w' =
         (if saving_epochs ?mn (best_score st) (map fst ((s, m') # obs1)) = []
          then files w
          else (files w)(path \<mapsto> CheckpointFile (checkpoint_of p
                 (snd (((s, m') # obs1) ! last (saving_epochs ?mn (best_score st) (map fst ((s, m') # obs1))))))))"
    using IH f1 by (auto simp add: sv last_map last_append fun_eq_iff)
  show ?case
    unfolding obs using len tr best bep fl mvs by simp
qed

lemma best_so_far_mono:
  "\<not> score_improved mn s b \<Longrightarrow> \<not> score_improved mn s (best_so_far mn b ss)"
proof (induction ss arbitrary: b)
  case Nil
  then show ?case by simp
next
  case (Cons x xs)
  have "\<not> score_improved mn s (if score_improved mn x b then x else b)"
    using Cons.prems score_improved_antimono[of mn s b x] by auto
  from Cons.IH[OF this] show ?case by simp
qed

lemma best_so_far_not_beaten:
  "s \<in> set ss \<Longrightarrow> \<not> score_improved mn s (best_so_far mn b ss)"
proof (induction ss arbitrary: b)
  case Nil
  then show ?case by simp
next
  case (Cons x xs)
  show ?case
  proof (cases "s = x")
    case True
    have "\<not> score_improved mn x (if score_improved mn x b then x else b)"
      by (simp add: score_improved_irrefl)
    from best_so_far_mono[OF this] show ?thesis using True by simp
  next
    case False
    with Cons.prems have "s \<in> set xs" by simp
    from Cons.IH[OF this] show ?thesis by simp
  qed
qed

lemma best_so_far_last_saving:
  "best_so_far mn b ss =
     (if saving_epochs mn b ss = [] then b else ss ! last (saving_epochs mn b ss))"
proof (induction ss arbitrary: b)
  case Nil
  then show ?case by simp
next
  case (Cons x xs)
  show ?case
    using Cons.IH[of "if score_improved mn x b then x else b"]
    by (auto simp add: saving_epochs_Cons last_map last_append)
qed

lemma first_seen_best:
  assumes "saving_epochs mn b ss \<noteq> []"
  shows "\<forall>j < length ss. \<not> score_improved mn (ss ! j) (ss ! last (saving_epochs mn b ss))"
    and "\<forall>j < last (saving_epochs mn b ss). ss ! j \<noteq> ss ! last (saving_epochs mn b ss)"
proof -
  let ?k = "last (saving_epochs mn b ss)"
  have best: "best_so_far mn b ss = ss ! ?k"
    using assms best_so_far_last_saving[of mn b ss] by simp
  show "\<forall>j < length ss. \<not> score_improved mn (ss ! j) (ss ! ?k)"
  proof (intro allI impI)
    fix j assume "j < length ss"
    then have "ss ! j \<in> set ss" by simp
    from best_so_far_not_beaten[OF this, of mn b]
    show "\<not> score_improved mn (ss ! j) (ss ! ?k)" by (simp add: best)
  qed
  have "?k \<in> set (saving_epochs mn b ss)"
    using assms by (rule last_in_set)
  then have k: "?k < length ss" "strictly_improves_at mn b ss ?k"
    by (simp_all add: saving_epochs_mem)
  show "\<forall>j < ?k. ss ! j \<noteq> ss ! ?k"
  proof (intro allI impI)
    fix j assume j: "j < ?k"
    have "take ?k ss ! j = ss ! j" using j by simp
    moreover have "j < length (take ?k ss)" using j k(1) by simp
    ultimately have "ss ! j \<in> set (take ?k ss)"
      using nth_mem[of j "take ?k ss"] by simp
    then have "\<not> score_improved mn (ss ! j) (best_so_far mn b (take ?k ss))"
      by (rule best_so_far_not_beaten)
    with k(2) show "ss ! j \<noteq> ss ! ?k"
      by (auto simp: strictly_improves_at_def)
  qed
qed

lemma save_event_in_epoch_events:
  "EvSaveCheckpoint path ck \<in> set (epoch_events p path idx b es obs i)
   \<longleftrightarrow> strictly_improves_at (minimize_score (p_args p)) b (map fst obs) i
       \<and> ck = checkpoint_of p (snd (obs ! i))"
  by (auto simp: epoch_events_def)

lemma member_test_reload:
  assumes "files w path = Some (CheckpointFile ck)"
    and "path = member_checkpoint_path env (p_args p) idx"
  shows "trace (snd (member_test env p False idx mvs sum_preds w))
         = trace w @ [EvLoadCheckpoint path, EvPredict idx (predict env (ck_model ck) (test_data p) (scaler p))]"
    and "trace (snd (member_test env p True idx mvs sum_preds w)) = trace w @ [EvLoadCheckpoint path]"
  using assms
  by (simp_all add: member_test_def load_checkpoint_present Let_def split: sum.splits)

lemma member_train_unfold:
  "member_train env p idx m0 mvs w =
     epoch_loop env p idx (member_checkpoint_path env (p_args p) idx) [0..<nat (epochs (p_args p))]
       (initial_state env (p_args p) m0 mvs)
       (emit (EvSaveCheckpoint (member_checkpoint_path env (p_args p) idx) (checkpoint_of p m0))
          (w\<lparr> files := (files w)(member_checkpoint_path env (p_args p) idx
                  \<mapsto> CheckpointFile (checkpoint_of p m0)) \<rparr>))"
  by (simp add: member_train_def Let_def save_checkpoint_prepared)

lemma member_preds_append: "member_preds (xs @ ys) = member_preds xs @ member_preds ys"
  by (induction xs rule: member_preds.induct) simp_all

lemma member_events_no_preds: "\<forall>ev \<in> set ext. is_member_event ev \<Longrightarrow> member_preds ext = []"
  by (induction ext rule: member_preds.induct) simp_all

lemma run_epoch_frame:
  assumes "run_epoch env p idx path e st w = (r, w')"
  shows "\<exists>ext. trace w' = trace w @ ext \<and> (\<forall>ev \<in> set ext. is_member_event ev)"
    and "(\<exists>ck. files w q = Some (CheckpointFile ck)) \<Longrightarrow> (\<exists>ck. files w' q = Some (CheckpointFile ck))"
  using assms
  by (auto simp: run_epoch_def Let_def save_checkpoint_prepared
      split: prod.splits option.splits if_splits)

lemma epoch_loop_frame:
  assumes "epoch_loop env p idx path es st w = (r, w')"
  shows "(\<exists>ext. trace w' = trace w @ ext \<and> (\<forall>ev \<in> set ext. is_member_event ev))
       \<and> ((\<exists>ck. files w q = Some (CheckpointFile ck)) \<longrightarrow> (\<exists>ck. files w' q = Some (CheckpointFile ck)))"
  using assms
proof (induction es arbitrary: st w)
  case Nil
  then show ?case by simp
next
  case (Cons e es)
  obtain r1 w1 where step: "run_epoch env p idx path e st w = (r1, w1)"
    by (cases "run_epoch env p idx path e st w") auto
  from run_epoch_frame(1)[OF step] obtain ext1 where
    e1: "trace w1 = trace w @ ext1" "\<forall>ev \<in> set ext1. is_member_event ev" by blast
  have f1: "(\<exists>ck. files w q = Some (CheckpointFile ck)) \<longrightarrow> (\<exists>ck. files w1 q = Some (CheckpointFile ck))"
    using run_epoch_frame(2)[OF step] by blast
  show ?case
  proof (cases r1)
    case (Inl err)
    with Cons.prems step have "w' = w1" by simp
    with e1 f1 show ?thesis by blast
  next
    case (Inr st1)
    with Cons.prems step have rest: "epoch_loop env p idx path es st1 w1 = (r, w')" by simp
    from Cons.IH[OF rest] obtain ext2 where
      e2: "trace w' = trace w1 @ ext2" "\<forall>ev \<in> set ext2. is_member_event ev"
      and f2: "(\<exists>ck. files w1 q = Some (CheckpointFile ck)) \<longrightarrow> (\<exists>ck. files w' q = Some (CheckpointFile ck))"
      by blast
    have "trace w' = trace w @ (ext1 @ ext2)" using e1 e2 by simp
    moreover have "\<forall>ev \<in> set (ext1 @ ext2). is_member_event ev" using e1 e2 by auto
    ultimately show ?thesis using f1 f2 by blast
  qed
qed


lemma member_build_frame:
  assumes "member_build env p idx w = (r, w')"
  shows "\<exists>ext. trace w' = trace w @ ext \<and> (\<forall>ev \<in> set ext. is_member_event ev)"
    and "files w' = files w"
  using assms
  by (auto simp: member_build_def Let_def load_checkpoint_def
      split: prod.splits option.splits if_splits sum.splits disk_file.splits)


lemma member_train_frame:
  assumes "member_train env p idx m0 mvs w = (r, w')"
  shows "\<exists>ext. trace w' = trace w @ EvSaveCheckpoint (member_checkpoint_path env (p_args p) idx) (checkpoint_of p m0) # ext
            \<and> (\<forall>ev \<in> set ext. is_member_event ev)"
    and "\<exists>ck. files w' (member_checkpoint_path env (p_args p) idx) = Some (CheckpointFile ck)"
proof -
  let ?path = "member_checkpoint_path env (p_args p) idx"
  let ?w1 = "emit (EvSaveCheckpoint ?path (checkpoint_of p m0))
          (w\<lparr> files := (files w)(?path \<mapsto> CheckpointFile (checkpoint_of p m0)) \<rparr>)"
  from assms have loop: "epoch_loop env p idx ?path [0..<nat (epochs (p_args p))]
       (initial_state env (p_args p) m0 mvs) ?w1 = (r, w')"
    by (simp add: member_train_unfold)
  from epoch_loop_frame[OF loop, of ?path] obtain ext where
    "trace w' = trace ?w1 @ ext" "\<forall>ev \<in> set ext. is_member_event ev"
    and f: "\<exists>ck. files w' ?path = Some (CheckpointFile ck)"
    by auto
  then show "\<exists>ext. trace w' = trace w @ EvSaveCheckpoint ?path (checkpoint_of p m0) # ext
            \<and> (\<forall>ev \<in> set ext. is_member_event ev)"
    by simp
  show "\<exists>ck. files w' ?path = Some (CheckpointFile ck)" by (rule f)
qed

lemma member_test_Inr:
  assumes "member_test env p ets idx mvs sum_preds w = (Inr sumb, w')"
  shows "\<exists>ck. files w (member_checkpoint_path env (p_args p) idx) = Some (CheckpointFile ck)
     \<and> (ets \<longrightarrow> sumb = sum_preds
           \<and> trace w' = trace w @ [EvLoadCheckpoint (member_checkpoint_path env (p_args p) idx)])
     \<and> (\<not> ets \<longrightarrow>
           trace w' = trace w @ [EvLoadCheckpoint (member_checkpoint_path env (p_args p) idx),
                 EvPredict idx (predict env (ck_model ck) (test_data p) (scaler p))]
           \<and> (nd_len (predict env (ck_model ck) (test_data p) (scaler p)) \<noteq> 0
                \<longrightarrow> nd_iadd sum_preds (predict env (ck_model ck) (test_data p) (scaler p)) = Inr sumb)
           \<and> (nd_len (predict env (ck_model ck) (test_data p) (scaler p)) = 0 \<longrightarrow> sumb = sum_preds))"
proof -
  let ?path = "member_checkpoint_path env (p_args p) idx"
  from assms obtain ck where ck: "files w ?path = Some (CheckpointFile ck)"
    by (auto simp: member_test_def load_checkpoint_def Let_def
        split: option.splits disk_file.splits)
  show ?thesis
    using assms
    by (intro exI[of _ ck])
       (auto simp: member_test_def load_checkpoint_present[OF ck] Let_def ck
          split: if_splits sum.splits)
qed


lemma run_member_Inr:
  assumes "run_member env p ets idx (sum_preds, mvs) w = (Inr (sumb, mvs'), w')"
  shows "\<exists>ext m. (\<forall>ev \<in> set ext. is_member_event ev)
     \<and> (ets \<longrightarrow> sumb = sum_preds \<and> trace w' = trace w @ ext)
     \<and> (\<not> ets \<longrightarrow>
           trace w' = trace w @ ext @ [EvPredict idx (predict env m (test_data p) (scaler p))]
           \<and> (nd_len (predict env m (test_data p) (scaler p)) \<noteq> 0
                \<longrightarrow> nd_iadd sum_preds (predict env m (test_data p) (scaler p)) = Inr sumb)
           \<and> (nd_len (predict env m (test_data p) (scaler p)) = 0 \<longrightarrow> sumb = sum_preds))"
proof -
  let ?path = "member_checkpoint_path env (p_args p) idx"
  from assms obtain m0 w1 where b: "member_build env p idx w = (Inr m0, w1)"
    by (auto simp: run_member_def split: prod.splits sum.splits)
  from assms b obtain st w2 where t: "member_train env p idx m0 mvs w1 = (Inr st, w2)"
    by (auto simp: run_member_def split: prod.splits sum.splits)
  from assms b t have ts: "member_test env p ets idx (mean_val_score st) sum_preds w2 = (Inr sumb, w')"
    by (auto simp: run_member_def split: prod.splits sum.splits)
  from member_build_frame(1)[OF b] obtain e1 where
    e1: "trace w1 = trace w @ e1" "\<forall>ev \<in> set e1. is_member_event ev" by blast
  from member_train_frame(1)[OF t] obtain e2 where
    e2: "trace w2 = trace w1 @ EvSaveCheckpoint ?path (checkpoint_of p m0) # e2"
      "\<forall>ev \<in> set e2. is_member_event ev" by blast
  from member_test_Inr[OF ts] obtain ck where
    fck: "files w2 ?path = Some (CheckpointFile ck)" and
    ck1: "ets \<longrightarrow> sumb = sum_preds \<and> trace w' = trace w2 @ [EvLoadCheckpoint ?path]"
    and ck2: "\<not> ets \<longrightarrow>
           trace w' = trace w2 @ [EvLoadCheckpoint ?path,
                 EvPredict idx (predict env (ck_model ck) (test_data p) (scaler p))]
           \<and> (nd_len (predict env (ck_model ck) (test_data p) (scaler p)) \<noteq> 0
                \<longrightarrow> nd_iadd sum_preds (predict env (ck_model ck) (test_data p) (scaler p)) = Inr sumb)
           \<and> (nd_len (predict env (ck_model ck) (test_data p) (scaler p)) = 0 \<longrightarrow> sumb = sum_preds)"
    by (elim exE conjE) (rule that)
  let ?ext = "e1 @ EvSaveCheckpoint ?path (checkpoint_of p m0) # e2 @ [EvLoadCheckpoint ?path]"
  have all: "\<forall>ev \<in> set ?ext. is_member_event ev" using e1(2) e2(2) by auto
  show ?thesis
  proof (intro exI[of _ ?ext] exI[of _ "ck_model ck"] conjI)
    show "\<forall>ev \<in> set ?ext. is_member_event ev" by (rule all)
    show "ets \<longrightarrow> sumb = sum_preds \<and> trace w' = trace w @ ?ext"
      using ck1 e1(1) e2(1) by simp
    show "\<not> ets \<longrightarrow>
           trace w' = trace w @ ?ext @ [EvPredict idx (predict env (ck_model ck) (test_data p) (scaler p))]
           \<and> (nd_len (predict env (ck_model ck) (test_data p) (scaler p)) \<noteq> 0
                \<longrightarrow> nd_iadd sum_preds (predict env (ck_model ck) (test_data p) (scaler p)) = Inr sumb)
           \<and> (nd_len (predict env (ck_model ck) (test_data p) (scaler p)) = 0 \<longrightarrow> sumb = sum_preds)"
      using ck2 e1(1) e2(1) by simp
  qed
qed



lemma ensemble_loop_events:
  assumes "ensemble_loop env p ets idxs (sum_preds, mvs) w = (Inr (sumb, mvs'), w')"
  shows "\<exists>ext. trace w' = trace w @ ext \<and> (\<forall>ev \<in> set ext. is_member_event ev \<or> is_predict ev)"
  using assms
proof (induction idxs arbitrary: sum_preds mvs w)
  case Nil
  then show ?case by simp
next
  case (Cons idx idxs)
  from Cons.prems obtain sum1 mvs1 w1 where
    m: "run_member env p ets idx (sum_preds, mvs) w = (Inr (sum1, mvs1), w1)"
    and rest: "ensemble_loop env p ets idxs (sum1, mvs1) w1 = (Inr (sumb, mvs'), w')"
    by (auto split: prod.splits sum.splits)
  from run_member_Inr[OF m] obtain e1 where
    e1: "trace w1 = trace w @ e1" "\<forall>ev \<in> set e1. is_member_event ev \<or> is_predict ev"
    by (cases ets) fastforce+
  from Cons.IH[OF rest] obtain e2 where
    e2: "trace w' = trace w1 @ e2" "\<forall>ev \<in> set e2. is_member_event ev \<or> is_predict ev" by blast
  have "trace w' = trace w @ (e1 @ e2)" using e1 e2 by simp
  moreover have "\<forall>ev \<in> set (e1 @ e2). is_member_event ev \<or> is_predict ev" using e1 e2 by auto
  ultimately show ?case by blast
qed

lemma scale_block_lengths:
  "scale_block env kind enabled (tr, va, te) = (sc, tr', va', te') \<Longrightarrow>
   length tr' = length tr \<and> length va' = length va \<and> length te' = length te"
  by (auto simp: scale_block_def normalize_features_def Let_def split: if_splits)

lemma prepare_features_unfold:
  "\<exists>tr0 va0 te0 tr3 va3 te3 fs ads bfs cs.
     split_datasets env args data = (tr0, va0, te0)
   \<and> length tr3 = length tr0 \<and> length va3 = length va0 \<and> length te3 = length te0
   \<and> prepare_features env args data =
       \<lparr> train_data = tr3, val_data = va3, test_data = te3,
         features_scaler = fs, atom_descriptor_scaler = ads, bond_feature_scaler = bfs,
         scaler = None,
         p_args = args\<lparr> train_class_sizes := cs, train_data_size := length tr3 \<rparr> \<rparr>"
proof -
  obtain tr0 va0 te0 where s: "split_datasets env args data = (tr0, va0, te0)"
    by (metis prod_cases3)
  define args1 where "args1 = (if dataset_type args = ''classification''
                   then args\<lparr> train_class_sizes := Some (get_class_sizes env tr0 False) \<rparr>
                   else args)"
  define cs where "cs = (if dataset_type args = ''classification''
                   then Some (get_class_sizes env tr0 False) else train_class_sizes args)"
  have a1: "args1 = args\<lparr> train_class_sizes := cs \<rparr>"
    by (simp add: args1_def cs_def)
  obtain fs tr1 va1 te1 where
    b1: "scale_block env ScaleFeatures (features_scaling args1) (tr0, va0, te0) = (fs, tr1, va1, te1)"
    by (metis prod_cases4)
  obtain ads tr2 va2 te2 where
    b2: "scale_block env ScaleAtomDescriptors
           (atom_descriptor_scaling args1 \<and> atom_descriptors args1 \<noteq> None) (tr1, va1, te1)
         = (ads, tr2, va2, te2)"
    by (metis prod_cases4)
  obtain bfs tr3 va3 te3 where
    b3: "scale_block env ScaleBondFeatures
           (bond_feature_scaling args1 \<and> bond_features_size args1 > 0) (tr2, va2, te2)
         = (bfs, tr3, va3, te3)"
    by (metis prod_cases4)
  have pf: "prepare_features env args data =
       \<lparr> train_data = tr3, val_data = va3, test_data = te3,
         features_scaler = fs, atom_descriptor_scaler = ads, bond_feature_scaler = bfs,
         scaler = None,
         p_args = args1\<lparr> train_data_size := length tr3 \<rparr> \<rparr>"
    unfolding prepare_features_def s Let_def prod.case args1_def[symmetric] b1 b2 b3 ..
  have len: "length tr3 = length tr0 \<and> length va3 = length va0 \<and> length te3 = length te0"
    using scale_block_lengths[OF b1] scale_block_lengths[OF b2] scale_block_lengths[OF b3]
    by simp
  show ?thesis
    using s len pf a1 by blast
qed

lemma prepare_features_lengths:
  "length (val_data (prepare_features env args data)) = length (fst (snd (split_datasets env args data)))"
  "length (test_data (prepare_features env args data)) = length (snd (snd (split_datasets env args data)))"
proof -
  from prepare_features_unfold[of env args data] obtain tr0 va0 te0 tr3 va3 te3 fs ads bfs cs where
    "split_datasets env args data = (tr0, va0, te0)"
    "length va3 = length va0" "length te3 = length te0"
    "prepare_features env args data =
       \<lparr> train_data = tr3, val_data = va3, test_data = te3,
         features_scaler = fs, atom_descriptor_scaler = ads, bond_feature_scaler = bfs,
         scaler = None,
         p_args = args\<lparr> train_class_sizes := cs, train_data_size := length tr3 \<rparr> \<rparr>"
    by blast
  then show "length (val_data (prepare_features env args data)) = length (fst (snd (split_datasets env args data)))"
    and "length (test_data (prepare_features env args data)) = length (snd (snd (split_datasets env args data)))"
    by simp_all
qed

lemma prepare_targets_lengths:
  "length (val_data (prepare_targets env p)) = length (val_data p)"
  "length (test_data (prepare_targets env p)) = length (test_data p)"
  by (simp_all add: prepare_targets_def Let_def normalize_spectra_targets_def normalize_targets_def
      split: prod.splits)

lemma prepare_features_args:
  "\<exists>cs n. p_args (prepare_features env args data)
      = args\<lparr> train_class_sizes := cs, train_data_size := n \<rparr>"
proof -
  from prepare_features_unfold[of env args data] obtain tr3 va3 te3 fs ads bfs cs where
    "prepare_features env args data =
       \<lparr> train_data = tr3, val_data = va3, test_data = te3,
         features_scaler = fs, atom_descriptor_scaler = ads, bond_feature_scaler = bfs,
         scaler = None,
         p_args = args\<lparr> train_class_sizes := cs, train_data_size := length tr3 \<rparr> \<rparr>"
    by blast
  then have "p_args (prepare_features env args data)
      = args\<lparr> train_class_sizes := cs, train_data_size := length tr3 \<rparr>" by simp
  then show ?thesis by blast
qed

lemma prepare_targets_args:
  "\<exists>pm. p_args (prepare_targets env p) = (p_args p)\<lparr> spectra_phase_mask := pm \<rparr>"
proof (cases "dataset_type (p_args p) = ''regression''")
  case True
  then have "p_args (prepare_targets env p) = (p_args p)\<lparr> spectra_phase_mask := None \<rparr>"
    by (simp add: prepare_targets_def Let_def split: prod.splits)
  then show ?thesis by blast
next
  case False
  show ?thesis
  proof (cases "dataset_type (p_args p) = ''spectra''")
    case True
    with False have "p_args (prepare_targets env p)
        = (p_args p)\<lparr> spectra_phase_mask := load_phase_mask env (spectra_phase_mask_path (p_args p)) \<rparr>"
      by (simp add: prepare_targets_def Let_def)
    then show ?thesis by blast
  next
    case nsp: False
    with False have "p_args (prepare_targets env p) = (p_args p)\<lparr> spectra_phase_mask := None \<rparr>"
      by (simp add: prepare_targets_def Let_def)
    then show ?thesis by blast
  qed
qed

lemma prepared_args:
  "\<exists>cs n pm. p_args (prepare_targets env (prepare_features env args data))
      = args\<lparr> train_class_sizes := cs, train_data_size := n, spectra_phase_mask := pm \<rparr>"
proof -
  from prepare_features_args[of env args data] obtain cs n where
    1: "p_args (prepare_features env args data) = args\<lparr> train_class_sizes := cs, train_data_size := n \<rparr>"
    by blast
  from prepare_targets_args[of env "prepare_features env args data"] obtain pm where
    2: "p_args (prepare_targets env (prepare_features env args data))
          = (p_args (prepare_features env args data))\<lparr> spectra_phase_mask := pm \<rparr>"
    by blast
  show ?thesis
    by (rule exI[of _ cs], rule exI[of _ n], rule exI[of _ pm]) (simp add: 1 2)
qed

lemma prepared_args_fields:
  fixes env :: "('d, 'm, 'o, 's, 't, 'r) collaborators"
  defines "a \<equiv> \<lambda>args data. p_args (prepare_targets env (prepare_features env args data))"
  shows "neptune_logging (a args data) = neptune_logging args"
    and "metrics (a args data) = metrics args"
    and "metric (a args data) = metric args"
    and "task_names (a args data) = task_names args"
    and "num_tasks (a args data) = num_tasks args"
    and "dataset_type (a args data) = dataset_type args"
    and "ensemble_size (a args data) = ensemble_size args"
    and "epochs (a args data) = epochs args"
    and "save_dir (a args data) = save_dir args"
    and "save_preds (a args data) = save_preds args"
    and "checkpoint_paths (a args data) = checkpoint_paths args"
    and "minimize_score (a args data) = minimize_score args"
proof -
  from prepared_args[of env args data] obtain cs n pm where
    eq: "a args data = args\<lparr> train_class_sizes := cs, train_data_size := n, spectra_phase_mask := pm \<rparr>"
    unfolding a_def by blast
  show "neptune_logging (a args data) = neptune_logging args"
    and "metrics (a args data) = metrics args"
    and "metric (a args data) = metric args"
    and "task_names (a args data) = task_names args"
    and "num_tasks (a args data) = num_tasks args"
    and "dataset_type (a args data) = dataset_type args"
    and "ensemble_size (a args data) = ensemble_size args"
    and "epochs (a args data) = epochs args"
    and "save_dir (a args data) = save_dir args"
    and "save_preds (a args data) = save_preds args"
    and "checkpoint_paths (a args data) = checkpoint_paths args"
    and "minimize_score (a args data) = minimize_score args"
    by (simp_all add: eq)
qed








lemma map_of_insort_key:
  "fst x \<notin> fst ` set xs \<Longrightarrow> map_of (insort_key fst x xs) = (map_of xs)(fst x \<mapsto> snd x)"
proof (induction xs)
  case Nil
  then show ?case by simp
next
  case (Cons y ys)
  then have ne: "fst y \<noteq> fst x" and IH': "map_of (insort_key fst x ys) = (map_of ys)(fst x \<mapsto> snd x)"
    by auto
  show ?case
    using ne IH' by (auto simp: fun_upd_twist)
qed

lemma json_dump_sorted_lookup:
  "distinct (map fst d) \<Longrightarrow> map_of (json_dump_sorted d) = map_of d"
proof (induction d)
  case Nil
  then show ?case by (simp add: json_dump_sorted_def)
next
  case (Cons x xs)
  then have IH: "map_of (sort_key fst xs) = map_of xs" and nin: "fst x \<notin> fst ` set xs"
    by (auto simp: json_dump_sorted_def)
  have "fst x \<notin> fst ` set (sort_key fst xs)" using nin by simp
  from map_of_insort_key[OF this] IH show ?case
    by (simp add: json_dump_sorted_def)
qed

lemma json_dump_sorted_props:
  "sorted (map fst (json_dump_sorted d))" "set (json_dump_sorted d) = set d"
  "length (json_dump_sorted d) = length d"
  by (simp_all add: json_dump_sorted_def)

lemma scores_preds_paths_differ: "scores_path args \<noteq> preds_path args"
  by (simp add: scores_path_def preds_path_def os_path_join_def)

lemma finish_Inr:
  assumes "finish env p ets sum_preds mvs w = (Inr result, w')"
  shows "result = ensemble_evaluate env p ets sum_preds"
    and "trace w' = trace w @ EvWriteScores (scores_path (p_args p))
           # (if save_preds (p_args p) \<and> \<not> ets then [EvWritePreds (preds_path (p_args p))] else [])"
    and "files w' (scores_path (p_args p)) = Some (ScoresJson (json_dump_sorted result))"
    and "save_preds (p_args p) \<and> \<not> ets \<Longrightarrow>
           files w' (preds_path (p_args p)) =
             Some (PredsCsv (map (smiles env) (test_data p)) (task_names (p_args p))
                     (average_test_preds (p_args p) sum_preds))"
  using assms scores_preds_paths_differ[of "p_args p"]
  by (auto simp: finish_def Let_def split: if_splits)


lemma run_training_empty_val:
  assumes "val_data (prepare_features env args data) = []"
  shows "run_training env args data w =
     (Inl (ValueError val_empty_message),
      (if save_smiles_splits args
       then emit EvSaveSplits (w\<lparr> rng := manual_seed env (pytorch_seed args) (rng w) \<rparr>)
       else w\<lparr> rng := manual_seed env (pytorch_seed args) (rng w) \<rparr>))"
  using assms by (simp add: run_training_def Let_def)

lemma run_training_unfold:
  assumes "val_data (prepare_features env args data) \<noteq> []"
  shows "run_training env args data w =
     (case ensemble_loop env (prepare_targets env (prepare_features env args data))
             (test_data (prepare_features env args data) = [])
             [0..<nat (ensemble_size args)]
             (initial_sum_test_preds (p_args (prepare_targets env (prepare_features env args data)))
                (length (test_data (prepare_targets env (prepare_features env args data)))), None)
             (if save_smiles_splits args
              then emit EvSaveSplits (w\<lparr> rng := manual_seed env (pytorch_seed args) (rng w) \<rparr>)
              else w\<lparr> rng := manual_seed env (pytorch_seed args) (rng w) \<rparr>) of
        (Inl e, w3) \<Rightarrow> (Inl e, w3)
      | (Inr (sumb, mvs), w3) \<Rightarrow>
          finish env (prepare_targets env (prepare_features env args data))
            (test_data (prepare_features env args data) = []) sumb mvs w3)"
  using assms by (simp add: run_training_def Let_def prepared_args_fields)

lemma run_training_Inr:
  assumes "run_training env args data w = (Inr result, w')"
  shows "val_data (prepare_features env args data) \<noteq> []
    \<and> (\<exists>sumb mvs w3.
         ensemble_loop env (prepare_targets env (prepare_features env args data))
             (test_data (prepare_features env args data) = [])
             [0..<nat (ensemble_size args)]
             (initial_sum_test_preds (p_args (prepare_targets env (prepare_features env args data)))
                (length (test_data (prepare_targets env (prepare_features env args data)))), None)
             (if save_smiles_splits args
              then emit EvSaveSplits (w\<lparr> rng := manual_seed env (pytorch_seed args) (rng w) \<rparr>)
              else w\<lparr> rng := manual_seed env (pytorch_seed args) (rng w) \<rparr>)
           = (Inr (sumb, mvs), w3)
       \<and> finish env (prepare_targets env (prepare_features env args data))
            (test_data (prepare_features env args data) = []) sumb mvs w3 = (Inr result, w'))"
proof -
  have ne: "val_data (prepare_features env args data) \<noteq> []"
    using assms run_training_empty_val[of env args data w] by auto
  from assms show ?thesis
    unfolding run_training_unfold[OF ne]
    using ne by (auto split: prod.splits sum.splits)
qed

lemma nd_iadd_cells:
  assumes "nd_iadd a b = Inr c" and "length (cells b) = length (cells a)"
  shows "shape b = shape a" and "shape c = shape a" and "length (cells c) = length (cells a)"
    and "\<forall>j < length (cells a). cells c ! j = fadd (cells a ! j) (cells b ! j)"
  using assms by (auto simp: nd_iadd_def split: if_splits)

lemma initial_sum_test_preds_shape:
  "length (cells (initial_sum_test_preds a n)) = prod_list (shape (initial_sum_test_preds a n))"
  "\<forall>j < prod_list (shape (initial_sum_test_preds a n)). cells (initial_sum_test_preds a n) ! j = Fin 0"
  "shape x = shape (initial_sum_test_preds a n) \<Longrightarrow> nd_len x = n"
  by (simp_all add: initial_sum_test_preds_def np_zeros_shape_def nd_len_def)

lemma ensemble_loop_preds:
  assumes "ensemble_loop env p False idxs (sum_preds, mvs) w = (Inr (sumb, mvs'), w')"
    and ok: "predict_shape_ok env p"
    and ne: "test_data p \<noteq> []"
    and sh: "shape sum_preds = shape (initial_sum_test_preds (p_args p) (length (test_data p)))"
    and ln: "length (cells sum_preds) = prod_list (shape (initial_sum_test_preds (p_args p) (length (test_data p))))"
  shows "\<exists>ext. trace w' = trace w @ ext
     \<and> length (member_preds ext) = length idxs
     \<and> (\<forall>pr \<in> set (member_preds ext). \<exists>m. pr = predict env m (test_data p) (scaler p))
     \<and> shape sumb = shape sum_preds
     \<and> length (cells sumb) = length (cells sum_preds)
     \<and> (\<forall>j < length (cells sum_preds).
           cells sumb ! j = foldl fadd (cells sum_preds ! j) (map (\<lambda>pr. cells pr ! j) (member_preds ext)))"
  using assms(1) sh ln
proof (induction idxs arbitrary: sum_preds mvs w)
  case Nil
  then show ?case by simp
next
  case (Cons idx idxs)
  let ?s0 = "shape (initial_sum_test_preds (p_args p) (length (test_data p)))"
  from Cons.prems(1) obtain sum1 mvs1 w1 where
    m: "run_member env p False idx (sum_preds, mvs) w = (Inr (sum1, mvs1), w1)"
    and rest: "ensemble_loop env p False idxs (sum1, mvs1) w1 = (Inr (sumb, mvs'), w')"
    by (auto split: prod.splits sum.splits)
  from run_member_Inr[OF m] obtain e1 m1 where
    e1: "\<forall>ev \<in> set e1. is_member_event ev"
    and tr1: "trace w1 = trace w @ e1 @ [EvPredict idx (predict env m1 (test_data p) (scaler p))]"
    and add: "nd_len (predict env m1 (test_data p) (scaler p)) \<noteq> 0
                \<longrightarrow> nd_iadd sum_preds (predict env m1 (test_data p) (scaler p)) = Inr sum1"
    by auto
  let ?pr = "predict env m1 (test_data p) (scaler p)"
  have prs: "shape ?pr = ?s0" "length (cells ?pr) = prod_list ?s0"
    using ok by (simp_all add: predict_shape_ok_def)
  have "nd_len ?pr = length (test_data p)"
    using initial_sum_test_preds_shape(3)[OF prs(1)] .
  with ne add have add': "nd_iadd sum_preds ?pr = Inr sum1" by simp
  have lb: "length (cells ?pr) = length (cells sum_preds)"
    using prs(2) Cons.prems(3) by simp
  note A = nd_iadd_cells[OF add' lb]
  have sh1: "shape sum1 = ?s0" using A(2) Cons.prems(2) by simp
  have ln1: "length (cells sum1) = prod_list ?s0" using A(3) Cons.prems(3) by simp
  from Cons.IH[OF rest sh1 ln1] obtain e2 where
    tr2: "trace w' = trace w1 @ e2"
    and len2: "length (member_preds e2) = length idxs"
    and all2: "\<forall>pr \<in> set (member_preds e2). \<exists>m. pr = predict env m (test_data p) (scaler p)"
    and sh2: "shape sumb = shape sum1"
    and ln2: "length (cells sumb) = length (cells sum1)"
    and c2: "\<forall>j < length (cells sum1).
           cells sumb ! j = foldl fadd (cells sum1 ! j) (map (\<lambda>pr. cells pr ! j) (member_preds e2))"
    by blast
  let ?ext = "e1 @ EvPredict idx ?pr # e2"
  have mp: "member_preds ?ext = ?pr # member_preds e2"
    using member_events_no_preds[OF e1] by (simp add: member_preds_append)
  show ?case
  proof (intro exI[of _ ?ext] conjI)
    show "trace w' = trace w @ ?ext" using tr1 tr2 by simp
    show "length (member_preds ?ext) = length (idx # idxs)" using len2 by (simp add: mp)
    show "\<forall>pr \<in> set (member_preds ?ext). \<exists>m. pr = predict env m (test_data p) (scaler p)"
      using all2 by (auto simp: mp)
    show "shape sumb = shape sum_preds" using sh2 A(2) by simp
    show "length (cells sumb) = length (cells sum_preds)" using ln2 A(3) by simp
    show "\<forall>j < length (cells sum_preds).
           cells sumb ! j = foldl fadd (cells sum_preds ! j) (map (\<lambda>pr. cells pr ! j) (member_preds ?ext))"
      using c2 A(3) A(4) by (simp add: mp)
  qed
qed

lemmas toy_defs =
  run_training_def prepare_features_def split_datasets_def truthy_def scale_block_def
  normalize_features_def prepare_targets_def normalize_targets_def run_member_def member_build_def
  member_train_def save_checkpoint_def run_epoch_def score_improved_def member_test_def
  load_checkpoint_def nd_len_def nd_iadd_def finish_def ensemble_evaluate_def
  average_test_preds_def nd_div_def initial_sum_test_preds_def np_zeros_shape_def emit_def
  toy_env_def toy_args_def toy_world_def member_checkpoint_path_def member_save_dir_def
  os_path_join_def digit_char_def json_dump_sorted_def scores_path_def preds_path_def
  initial_state_def nan_scores_def Let_def

lemma toy_member_dirs: "str_nat 0 = ''0''" "str_nat 1 = ''1''"
  by (simp_all add: str_nat.simps digit_char_def)

lemma toy_short_run:
  "fst (run_training toy_env (toy_args\<lparr> epochs := 1 \<rparr>) [0, 1, 2, 3] toy_world)
     = Inr [(''rmse'', [Fin 4]), (''mae'', [Fin 4])]"
  "member_preds (trace (snd (run_training toy_env (toy_args\<lparr> epochs := 1 \<rparr>) [0, 1, 2, 3] toy_world)))
     = [\<lparr> shape = [1, 1], cells = [Fin 3] \<rparr>, \<lparr> shape = [1, 1], cells = [Fin 5] \<rparr>]"
  by (simp_all add: toy_defs toy_member_dirs upt_rec)

lemma toy_no_validation:
  "fst (snd (split_datasets toy_env toy_args [0])) = []"
  "test_data (prepare_features toy_env toy_args [0]) = []"
  "val_data (prepare_features toy_env toy_args [0]) = []"
  by (simp_all add: toy_defs)


lemma toy_zero_epochs:
  "epochs (p_args (prepare_targets toy_env
       (prepare_features toy_env (toy_args\<lparr> epochs := 0 \<rparr>) [0, 1, 2, 3]))) \<le> 0"
  "member_checkpoint_path toy_env (p_args (prepare_targets toy_env
       (prepare_features toy_env (toy_args\<lparr> epochs := 0 \<rparr>) [0, 1, 2, 3]))) 0 = ''out/model_0/model.pt''"
  by (simp_all add: prepared_args_fields toy_args_def toy_env_def
        member_checkpoint_path_def member_save_dir_def os_path_join_def toy_member_dirs)

lemma toy_member:
  "fst (member_train toy_env
          (prepare_targets toy_env (prepare_features toy_env toy_args [0, 1, 2, 3])) 0 0 None toy_world)
   = Inr \<lparr> model = 4, optimizer = 4, best_score = Fin 0, best_epoch = 2, n_iter = 8,
           mean_val_score = Some (Fin 0) \<rparr>"
  "validation_trajectory toy_env
     (prepare_targets toy_env (prepare_features toy_env toy_args [0, 1, 2, 3])) 0 [0..<4] 0 0 0 0
   = [(Fin 1, 1), (Fin 1, 2), (Fin 0, 3), (Fin 0, 4)]"
  by (simp_all add: toy_defs toy_member_dirs upt_rec)

lemma toy_saving: "saving_epochs True PosInf [Fin 1, Fin 1, Fin 0, Fin 0] = [0, 2]"
  by (simp add: saving_epochs_def strictly_improves_at_def best_so_far_def score_improved_def upt_rec)

subsection \<open>The ensemble\<close>

text \<open>
  C1. In a run that returns, with a test set that is not empty and \<^verbatim>\<open>predict\<close> returning
  one row per test datapoint: there is one array of test predictions per ensemble member;
  the array \<open>avg\<close> whose entries are the sum of the members' entries, added in order to
  zero and divided by the ensemble size, is what \<^verbatim>\<open>evaluate_predictions\<close> is applied to,
  and its value is the scores that the run returns (the members' own scores are not used);
  with \<^verbatim>\<open>save_preds\<close> the same array is written to the predictions file.
\<close>

theorem ensemble_prediction_is_mean:
  fixes env :: "('d, 'm, 'o, 's, 't, 'r) collaborators"
  assumes run: "run_training env args data w = (Inr result, w')"
    and nonempty: "test_data (prepare_features env args data) \<noteq> []"
    and p: "p = prepare_targets env (prepare_features env args data)"
    and ok: "predict_shape_ok env p"
    and preds: "preds = member_preds (drop (length (trace w)) (trace w'))"
    and avg: "avg = \<lparr> shape = shape (initial_sum_test_preds (p_args p) (length (test_data p))),
                     cells = map (\<lambda>j. fdiv (foldl fadd (Fin 0) (map (\<lambda>pr. cells pr ! j) preds))
                                        (ensemble_size args))
                               [0..<prod_list (shape (initial_sum_test_preds (p_args p) (length (test_data p))))] \<rparr>"
  shows "length preds = nat (ensemble_size args)
     \<and> (\<forall>pr \<in> set preds. \<exists>m. pr = predict env m (test_data p) (scaler p))
     \<and> result = evaluate_predictions env avg (targets env (test_data p)) (num_tasks args)
                  (metrics args) (dataset_type args)
                  (gt_targets env (test_data p)) (lt_targets env (test_data p))
     \<and> (save_preds args \<longrightarrow>
          files w' (preds_path args)
            = Some (PredsCsv (map (smiles env) (test_data p)) (task_names args) avg))"
proof -
  let ?w1 = "w\<lparr> rng := manual_seed env (pytorch_seed args) (rng w) \<rparr>"
  let ?w2 = "if save_smiles_splits args then emit EvSaveSplits ?w1 else ?w1"
  let ?z = "initial_sum_test_preds (p_args p) (length (test_data p))"
  let ?N = "prod_list (shape ?z)"
  have ets: "(test_data (prepare_features env args data) = []) = False" using nonempty by simp
  from run_training_Inr[OF run] obtain sumb mvs w3 where
    loop: "ensemble_loop env p False [0..<nat (ensemble_size args)] (?z, None) ?w2
           = (Inr (sumb, mvs), w3)"
    and fin: "finish env p False sumb mvs w3 = (Inr result, w')"
    unfolding ets p by blast
  have ne: "test_data p \<noteq> []"
    using nonempty prepare_targets_lengths(2)[of env "prepare_features env args data"]
    by (auto simp: p)
  from ensemble_loop_preds[OF loop ok ne refl initial_sum_test_preds_shape(1)] obtain ext where
    tr3: "trace w3 = trace ?w2 @ ext"
    and len: "length (member_preds ext) = nat (ensemble_size args)"
    and all: "\<forall>pr \<in> set (member_preds ext). \<exists>m. pr = predict env m (test_data p) (scaler p)"
    and shb: "shape sumb = shape ?z"
    and lnb: "length (cells sumb) = length (cells ?z)"
    and cb: "\<forall>j < length (cells ?z).
           cells sumb ! j = foldl fadd (cells ?z ! j) (map (\<lambda>pr. cells pr ! j) (member_preds ext))"
    by auto
  have trw': "trace w' = trace w @ (if save_smiles_splits args then [EvSaveSplits] else []) @ ext
      @ EvWriteScores (scores_path (p_args p))
           # (if save_preds (p_args p) \<and> \<not> False then [EvWritePreds (preds_path (p_args p))] else [])"
    using finish_Inr(2)[OF fin] tr3 by simp
  have pe: "preds = member_preds ext"
    unfolding preds trw' by (simp add: member_preds_append)
  have lz: "length (cells ?z) = ?N" by (rule initial_sum_test_preds_shape(1))
  have cells: "cells (average_test_preds (p_args p) sumb) = cells avg"
  proof (rule nth_equalityI)
    show "length (cells (average_test_preds (p_args p) sumb)) = length (cells avg)"
      using lnb lz by (simp add: average_test_preds_def nd_div_def avg)
    fix j assume "j < length (cells (average_test_preds (p_args p) sumb))"
    then have j: "j < ?N" using lnb lz by (simp add: average_test_preds_def nd_div_def)
    then have "cells sumb ! j = foldl fadd (Fin 0) (map (\<lambda>pr. cells pr ! j) preds)"
      using cb lz initial_sum_test_preds_shape(2)[of "p_args p" "length (test_data p)"]
      by (simp add: pe)
    then show "cells (average_test_preds (p_args p) sumb) ! j = cells avg ! j"
      using j lnb lz
      by (simp add: average_test_preds_def nd_div_def avg p prepared_args_fields)
  qed
  have av: "average_test_preds (p_args p) sumb = avg"
    using cells shb by (simp add: average_test_preds_def nd_div_def avg)
  have res: "result = evaluate_predictions env avg (targets env (test_data p)) (num_tasks args)
                  (metrics args) (dataset_type args)
                  (gt_targets env (test_data p)) (lt_targets env (test_data p))"
    using finish_Inr(1)[OF fin] av
    by (simp add: ensemble_evaluate_def Let_def p prepared_args_fields)
  have csv: "save_preds args \<longrightarrow>
          files w' (preds_path args)
            = Some (PredsCsv (map (smiles env) (test_data p)) (task_names args) avg)"
    using finish_Inr(4)[OF fin] av
    by (simp add: preds_path_def p prepared_args_fields)
  show ?thesis
    using len all res csv by (simp add: pe)
qed

theorem ensemble_prediction_is_mean_witness:
  "member_preds (trace (snd (run_training toy_env (toy_args\<lparr> epochs := 1 \<rparr>) [0, 1, 2, 3] toy_world)))
     = [\<lparr> shape = [1, 1], cells = [Fin 3] \<rparr>, \<lparr> shape = [1, 1], cells = [Fin 5] \<rparr>]
   \<and> fst (run_training toy_env (toy_args\<lparr> epochs := 1 \<rparr>) [0, 1, 2, 3] toy_world)
     = Inr (evaluate_predictions toy_env \<lparr> shape = [1, 1], cells = [Fin 4] \<rparr> [2] 1
              [''rmse'', ''mae''] ''regression'' [] [])"
proof -
  let ?args = "toy_args\<lparr> epochs := 1 \<rparr>"
  let ?run = "run_training toy_env ?args [0, 1, 2, 3] toy_world"
  let ?p = "prepare_targets toy_env (prepare_features toy_env ?args [0, 1, 2, 3])"
  have run: "?run = (Inr [(''rmse'', [Fin 4]), (''mae'', [Fin 4])], snd ?run)"
    using toy_short_run(1) by (simp add: prod_eq_iff)
  have p: "?p = \<lparr> train_data = [0, 3], val_data = [1], test_data = [2],
       features_scaler = Some 2, atom_descriptor_scaler = None, bond_feature_scaler = None,
       scaler = Some 2, p_args = ?args\<lparr> train_data_size := 2 \<rparr> \<rparr>"
    by (simp add: toy_defs)
  have ne: "test_data (prepare_features toy_env ?args [0, 1, 2, 3]) \<noteq> []"
    by (simp add: toy_defs)
  have ok: "predict_shape_ok toy_env ?p"
    unfolding p by (simp add: predict_shape_ok_def toy_defs)
  from ensemble_prediction_is_mean[OF run ne refl ok refl refl]
  have "[(''rmse'', [Fin 4]), (''mae'', [Fin 4])]
      = evaluate_predictions toy_env
          \<lparr> shape = shape (initial_sum_test_preds (p_args ?p) (length (test_data ?p))),
            cells = map (\<lambda>j. fdiv (foldl fadd (Fin 0)
                     (map (\<lambda>pr. cells pr ! j) (member_preds (drop (length (trace toy_world)) (trace (snd ?run))))))
                     (ensemble_size ?args))
                  [0..<prod_list (shape (initial_sum_test_preds (p_args ?p) (length (test_data ?p))))] \<rparr>
          (targets toy_env (test_data ?p)) (num_tasks ?args) (metrics ?args) (dataset_type ?args)
          (gt_targets toy_env (test_data ?p)) (lt_targets toy_env (test_data ?p))"
    by blast
  then have "[(''rmse'', [Fin 4]), (''mae'', [Fin 4])]
      = evaluate_predictions toy_env \<lparr> shape = [1, 1], cells = [Fin 4] \<rparr> [2] 1
              [''rmse'', ''mae''] ''regression'' [] []"
    unfolding p toy_short_run(2)
    by (simp add: toy_world_def toy_args_def initial_sum_test_preds_def np_zeros_shape_def toy_env_def)
  then show ?thesis
    using toy_short_run by simp
qed

subsection \<open>Empty splits\<close>

text \<open>
  C2. When the validation split is empty, the run raises \<^verbatim>\<open>ValueError\<close> with the message
  about the empty validation split (the error the specification calls ConfigurationError).
  Nothing has happened before it but the optional saving of the splits: no file is written,
  no model is trained and no checkpoint is saved.
\<close>

theorem empty_validation_is_fatal:
  assumes "fst (snd (split_datasets env args data)) = []"
  shows "fst (run_training env args data w) = Inl (ValueError val_empty_message)
       \<and> files (snd (run_training env args data w)) = files w
       \<and> trace (snd (run_training env args data w))
           = trace w @ (if save_smiles_splits args then [EvSaveSplits] else [])
       \<and> filter is_training (drop (length (trace w)) (trace (snd (run_training env args data w)))) = []"
proof -
  have "length (val_data (prepare_features env args data)) = 0"
    using assms by (simp add: prepare_features_lengths)
  then have "val_data (prepare_features env args data) = []" by simp
  from run_training_empty_val[OF this, of w] show ?thesis by simp
qed

theorem empty_validation_is_fatal_witness:
  "fst (snd (split_datasets toy_env toy_args [0])) = []
   \<and> fst (run_training toy_env toy_args [0] toy_world) = Inl (ValueError val_empty_message)
   \<and> trace (snd (run_training toy_env toy_args [0] toy_world)) = []"
  using empty_validation_is_fatal[OF toy_no_validation(1), of toy_world] toy_no_validation(1)
  by (simp add: toy_world_def toy_args_def)




subsection \<open>Checkpoints\<close>

text \<open>
  C4. For a member whose training returns, with \<open>obs\<close> the score and the model of each
  epoch: the events are the checkpoint saved before the loop and then, epoch by epoch,
  training, validation and a checkpoint of the epoch's model exactly when the epoch's score
  strictly improves on the best score seen before it, in the direction of
  \<^verbatim>\<open>minimize_score\<close>; an epoch whose score equals the best so far saves nothing. The
  last epoch that saved is the first one that reached the final best score, and no epoch
  beats it. The checkpoint on disk after the loop holds that epoch's model (the initial
  model when no epoch improved), and it is the model that is loaded and used for the test
  predictions.
\<close>

theorem checkpoint_iff_strictly_better:
  fixes env :: "('d, 'm, 'o, 's, 't, 'r) collaborators"
  assumes run: "member_train env p idx m0 mvs w = (Inr st', w')"
    and path: "path = member_checkpoint_path env (p_args p) idx"
    and n: "n = nat (epochs (p_args p))"
    and b0: "b0 = (if minimize_score (p_args p) then PosInf else NegInf)"
    and obs: "obs = validation_trajectory env p idx [0..<n] m0 (build_optimizer env m0 (p_args p)) 0 (rng w)"
    and saving: "saving = saving_epochs (minimize_score (p_args p)) b0 (map fst obs)"
    and kept: "kept = (if saving = [] then m0 else snd (obs ! last saving))"
  shows "length obs = n
    \<and> trace w' = trace w @ EvSaveCheckpoint path (checkpoint_of p m0)
         # concat (map (epoch_events p path idx b0 [0..<n] obs) [0..<n])
    \<and> (\<forall>i < n. EvSaveCheckpoint path (checkpoint_of p (snd (obs ! i)))
                   \<in> set (epoch_events p path idx b0 [0..<n] obs i)
               \<longleftrightarrow> score_improved (minimize_score (p_args p)) (fst (obs ! i))
                     (best_so_far (minimize_score (p_args p)) b0 (take i (map fst obs))))
    \<and> (\<forall>i < n. fst (obs ! i) = best_so_far (minimize_score (p_args p)) b0 (take i (map fst obs))
               \<longrightarrow> epoch_events p path idx b0 [0..<n] obs i
                     = [EvTrain idx i, EvValidate idx i (fst (obs ! i))])
    \<and> best_score st' = best_so_far (minimize_score (p_args p)) b0 (map fst obs)
    \<and> best_epoch st' = (if saving = [] then 0 else last saving)
    \<and> (saving \<noteq> [] \<longrightarrow>
         (\<forall>j < n. \<not> score_improved (minimize_score (p_args p)) (fst (obs ! j)) (fst (obs ! last saving)))
       \<and> (\<forall>j < last saving. fst (obs ! j) \<noteq> fst (obs ! last saving)))
    \<and> files w' path = Some (CheckpointFile (checkpoint_of p kept))
    \<and> fst (load_checkpoint path w') = Inr kept
    \<and> trace (snd (member_test env p False idx (mean_val_score st') sum_preds w'))
        = trace w' @ [EvLoadCheckpoint path, EvPredict idx (predict env kept (test_data p) (scaler p))]"
proof -
  let ?mn = "minimize_score (p_args p)"
  let ?w1 = "emit (EvSaveCheckpoint path (checkpoint_of p m0))
          (w\<lparr> files := (files w)(path \<mapsto> CheckpointFile (checkpoint_of p m0)) \<rparr>)"
  let ?st = "initial_state env (p_args p) m0 mvs :: ('m, 'o) loop_state"
  have loop: "epoch_loop env p idx path [0..<n] ?st ?w1 = (Inr st', w')"
    using run by (simp add: member_train_unfold path n)
  have st: "model ?st = m0" "optimizer ?st = build_optimizer env m0 (p_args p)" "n_iter ?st = 0"
    "best_score ?st = b0" "best_epoch ?st = 0"
    by (simp_all add: initial_state_def b0)
  have w1: "rng ?w1 = rng w" "trace ?w1 = trace w @ [EvSaveCheckpoint path (checkpoint_of p m0)]"
    "files ?w1 = (files w)(path \<mapsto> CheckpointFile (checkpoint_of p m0))"
    by simp_all
  note T = epoch_loop_trajectory[OF loop, unfolded st w1, folded obs, folded saving]
  have len: "length obs = n" using T by simp
  have tr: "trace w' = trace w @ EvSaveCheckpoint path (checkpoint_of p m0)
         # concat (map (epoch_events p path idx b0 [0..<n] obs) [0..<n])"
    using T by simp
  have iff: "\<forall>i < n. EvSaveCheckpoint path (checkpoint_of p (snd (obs ! i)))
                   \<in> set (epoch_events p path idx b0 [0..<n] obs i)
               \<longleftrightarrow> score_improved ?mn (fst (obs ! i)) (best_so_far ?mn b0 (take i (map fst obs)))"
    using len by (simp add: save_event_in_epoch_events strictly_improves_at_def)
  have tie: "\<forall>i < n. fst (obs ! i) = best_so_far ?mn b0 (take i (map fst obs))
               \<longrightarrow> epoch_events p path idx b0 [0..<n] obs i
                     = [EvTrain idx i, EvValidate idx i (fst (obs ! i))]"
    using len by (simp add: epoch_events_def strictly_improves_at_def score_improved_irrefl)
  have bs: "best_score st' = best_so_far ?mn b0 (map fst obs)" using T by simp
  have last_lt: "saving \<noteq> [] \<Longrightarrow> last saving < n"
    using saving_epochs_bound[of "last saving" ?mn b0 "map fst obs"] len
    by (simp add: saving)
  have be: "best_epoch st' = (if saving = [] then 0 else last saving)"
    using T last_lt by auto
  have first: "saving \<noteq> [] \<longrightarrow>
         (\<forall>j < n. \<not> score_improved ?mn (fst (obs ! j)) (fst (obs ! last saving)))
       \<and> (\<forall>j < last saving. fst (obs ! j) \<noteq> fst (obs ! last saving))"
  proof
    assume ne: "saving \<noteq> []"
    then have ne': "saving_epochs ?mn b0 (map fst obs) \<noteq> []" by (simp add: saving)
    from first_seen_best[OF ne'] last_lt[OF ne] len
    show "(\<forall>j < n. \<not> score_improved ?mn (fst (obs ! j)) (fst (obs ! last saving)))
       \<and> (\<forall>j < last saving. fst (obs ! j) \<noteq> fst (obs ! last saving))"
      by (simp add: saving [symmetric])
  qed
  have fl: "files w' path = Some (CheckpointFile (checkpoint_of p kept))"
    using T by (simp add: kept)
  have ld: "fst (load_checkpoint path w') = Inr kept"
    using load_checkpoint_present[OF fl] by simp
  have rl: "trace (snd (member_test env p False idx (mean_val_score st') sum_preds w'))
        = trace w' @ [EvLoadCheckpoint path, EvPredict idx (predict env kept (test_data p) (scaler p))]"
    using member_test_reload(1)[OF fl path] by simp
  show ?thesis
    using len tr iff tie bs be first fl ld rl by blast
qed

theorem checkpoint_iff_strictly_better_witness:
  "saving_epochs True PosInf [Fin 1, Fin 1, Fin 0, Fin 0] = [0, 2]
   \<and> fst (load_checkpoint ''out/model_0/model.pt''
        (snd (member_train toy_env
               (prepare_targets toy_env (prepare_features toy_env toy_args [0, 1, 2, 3]))
               0 0 None toy_world))) = Inr 3"
proof -
  let ?p = "prepare_targets toy_env (prepare_features toy_env toy_args [0, 1, 2, 3])"
  let ?run = "member_train toy_env ?p 0 0 None toy_world"
  let ?st = "\<lparr> model = 4 :: nat, optimizer = 4 :: nat, best_score = Fin 0, best_epoch = 2,
               n_iter = 8, mean_val_score = Some (Fin 0) \<rparr>"
  have run: "?run = (Inr ?st, snd ?run)"
    using toy_member(1) by (simp add: prod_eq_iff)
  have a: "minimize_score (p_args ?p) = True" "nat (epochs (p_args ?p)) = 4"
    "build_optimizer toy_env 0 (p_args ?p) = 0" "rng toy_world = 0"
    "member_checkpoint_path toy_env (p_args ?p) 0 = ''out/model_0/model.pt''"
    by (simp_all add: prepared_args_fields toy_args_def toy_env_def toy_world_def
          member_checkpoint_path_def member_save_dir_def os_path_join_def toy_member_dirs)
  from checkpoint_iff_strictly_better[OF run refl refl refl refl refl refl]
  have "fst (load_checkpoint (member_checkpoint_path toy_env (p_args ?p) 0) (snd ?run))
      = Inr (if saving_epochs (minimize_score (p_args ?p))
                 (if minimize_score (p_args ?p) then PosInf else NegInf)
                 (map fst (validation_trajectory toy_env ?p 0 [0..<nat (epochs (p_args ?p))] 0
                     (build_optimizer toy_env 0 (p_args ?p)) 0 (rng toy_world))) = []
             then 0
             else snd (validation_trajectory toy_env ?p 0 [0..<nat (epochs (p_args ?p))] 0
                     (build_optimizer toy_env 0 (p_args ?p)) 0 (rng toy_world)
                   ! last (saving_epochs (minimize_score (p_args ?p))
                 (if minimize_score (p_args ?p) then PosInf else NegInf)
                 (map fst (validation_trajectory toy_env ?p 0 [0..<nat (epochs (p_args ?p))] 0
                     (build_optimizer toy_env 0 (p_args ?p)) 0 (rng toy_world))))))"
    by blast
  then have "fst (load_checkpoint ''out/model_0/model.pt'' (snd ?run)) = Inr 3"
    unfolding a toy_member(2) by (simp add: toy_saving)
  then show ?thesis
    by (simp add: toy_saving)
qed

text \<open>
  C10. The first thing a member's training does is to save a checkpoint of the model with
  the target scaler, the three feature scalers and the arguments at the member's path.
  Whatever the epochs do, a checkpoint is at that path afterwards, so loading it succeeds
  and the test phase cannot fail for a missing file. With no epochs to run, training
  returns at once and the checkpoint loaded is the one of the initial model.
\<close>

theorem checkpoint_saved_before_epochs:
  "(\<exists>ext. trace (snd (member_train env p idx m0 mvs w))
        = trace w @ EvSaveCheckpoint (member_checkpoint_path env (p_args p) idx) (checkpoint_of p m0) # ext)
   \<and> (\<exists>ck. files (snd (member_train env p idx m0 mvs w)) (member_checkpoint_path env (p_args p) idx)
           = Some (CheckpointFile ck))
   \<and> (\<exists>m. fst (load_checkpoint (member_checkpoint_path env (p_args p) idx)
               (snd (member_train env p idx m0 mvs w))) = Inr m)
   \<and> fst (member_test env p ets idx mvs2 sum_preds (snd (member_train env p idx m0 mvs w)))
        \<noteq> Inl (FileNotFoundError (member_checkpoint_path env (p_args p) idx))
   \<and> (epochs (p_args p) \<le> 0 \<longrightarrow>
        fst (member_train env p idx m0 mvs w) = Inr (initial_state env (p_args p) m0 mvs)
      \<and> trace (snd (member_train env p idx m0 mvs w))
          = trace w @ [EvSaveCheckpoint (member_checkpoint_path env (p_args p) idx) (checkpoint_of p m0)]
      \<and> files (snd (member_train env p idx m0 mvs w)) (member_checkpoint_path env (p_args p) idx)
          = Some (CheckpointFile (checkpoint_of p m0))
      \<and> fst (load_checkpoint (member_checkpoint_path env (p_args p) idx)
               (snd (member_train env p idx m0 mvs w))) = Inr m0)"
proof -
  let ?path = "member_checkpoint_path env (p_args p) idx"
  obtain r w' where run: "member_train env p idx m0 mvs w = (r, w')"
    by (cases "member_train env p idx m0 mvs w") auto
  from member_train_frame[OF run] obtain ext ck where
    tr: "trace w' = trace w @ EvSaveCheckpoint ?path (checkpoint_of p m0) # ext"
    and ck: "files w' ?path = Some (CheckpointFile ck)"
    by blast
  have ld: "fst (load_checkpoint ?path w') = Inr (ck_model ck)"
    using load_checkpoint_present[OF ck] by simp
  have nf: "fst (member_test env p ets idx mvs2 sum_preds w') \<noteq> Inl (FileNotFoundError ?path)"
    by (simp add: member_test_def load_checkpoint_present[OF ck] Let_def nd_iadd_def
          split: sum.splits)
  have zero: "epochs (p_args p) \<le> 0 \<longrightarrow>
        r = Inr (initial_state env (p_args p) m0 mvs)
      \<and> trace w' = trace w @ [EvSaveCheckpoint ?path (checkpoint_of p m0)]
      \<and> files w' ?path = Some (CheckpointFile (checkpoint_of p m0))
      \<and> fst (load_checkpoint ?path w') = Inr m0"
  proof
    assume "epochs (p_args p) \<le> 0"
    then have "nat (epochs (p_args p)) = 0" by simp
    with run have "r = Inr (initial_state env (p_args p) m0 mvs)"
      and w': "w' = emit (EvSaveCheckpoint ?path (checkpoint_of p m0))
          (w\<lparr> files := (files w)(?path \<mapsto> CheckpointFile (checkpoint_of p m0)) \<rparr>)"
      by (simp_all add: member_train_unfold)
    moreover have "files w' ?path = Some (CheckpointFile (checkpoint_of p m0))"
      by (simp add: w')
    moreover from load_checkpoint_present[OF this]
    have "fst (load_checkpoint ?path w') = Inr m0" by simp
    moreover have "trace w' = trace w @ [EvSaveCheckpoint ?path (checkpoint_of p m0)]"
      by (simp add: w')
    ultimately show "r = Inr (initial_state env (p_args p) m0 mvs)
      \<and> trace w' = trace w @ [EvSaveCheckpoint ?path (checkpoint_of p m0)]
      \<and> files w' ?path = Some (CheckpointFile (checkpoint_of p m0))
      \<and> fst (load_checkpoint ?path w') = Inr m0"
      by blast
  qed
  show ?thesis
    using tr ck ld nf zero by (simp add: run)
qed

theorem checkpoint_saved_before_epochs_witness:
  "epochs (p_args (prepare_targets toy_env
       (prepare_features toy_env (toy_args\<lparr> epochs := 0 \<rparr>) [0, 1, 2, 3]))) \<le> 0
   \<and> fst (load_checkpoint ''out/model_0/model.pt''
        (snd (member_train toy_env
               (prepare_targets toy_env (prepare_features toy_env (toy_args\<lparr> epochs := 0 \<rparr>) [0, 1, 2, 3]))
               0 7 None toy_world))) = Inr 7"
  using checkpoint_saved_before_epochs[of toy_env
      "prepare_targets toy_env (prepare_features toy_env (toy_args\<lparr> epochs := 0 \<rparr>) [0, 1, 2, 3])"
      0 7 None toy_world True None "np_zeros_shape [0, 1]"]
    toy_zero_epochs
  by simp

subsection \<open>The scores file\<close>

text \<open>
  C9. In a run that returns, the scores file is written exactly once, after every event of
  the ensemble members and before nothing but the optional predictions file. Its content
  is the returned dictionary with the items sorted by key: the same items, and for distinct
  keys the same score list under every metric.
\<close>

theorem scores_file_written_once:
  fixes env :: "('d, 'm, 'o, 's, 't, 'r) collaborators"
  assumes "run_training env args data w = (Inr result, w')"
  shows "(\<exists>before after.
            trace w' = trace w @ before @ [EvWriteScores (scores_path args)] @ after
          \<and> (\<forall>ev \<in> set before. \<not> is_write_scores ev \<and> \<not> is_write_preds ev)
          \<and> (\<forall>ev \<in> set after. is_write_preds ev))
       \<and> length (filter is_write_scores (drop (length (trace w)) (trace w'))) = 1
       \<and> files w' (scores_path args) = Some (ScoresJson (json_dump_sorted result))
       \<and> sorted (map fst (json_dump_sorted result))
       \<and> set (json_dump_sorted result) = set result
       \<and> length (json_dump_sorted result) = length result
       \<and> (distinct (map fst result) \<longrightarrow> map_of (json_dump_sorted result) = map_of result)"
proof -
  let ?p = "prepare_targets env (prepare_features env args data)"
  let ?ets = "test_data (prepare_features env args data) = []"
  let ?w1 = "w\<lparr> rng := manual_seed env (pytorch_seed args) (rng w) \<rparr>"
  let ?w2 = "if save_smiles_splits args then emit EvSaveSplits ?w1 else ?w1"
  from run_training_Inr[OF assms] obtain sumb mvs w3 where
    loop: "ensemble_loop env ?p ?ets [0..<nat (ensemble_size args)]
             (initial_sum_test_preds (p_args ?p) (length (test_data ?p)), None) ?w2
           = (Inr (sumb, mvs), w3)"
    and fin: "finish env ?p ?ets sumb mvs w3 = (Inr result, w')"
    by blast
  from ensemble_loop_events[OF loop] obtain ext where
    ext: "trace w3 = trace ?w2 @ ext" "\<forall>ev \<in> set ext. is_member_event ev \<or> is_predict ev"
    by blast
  define before :: "('m, 's) event list" where "before = (if save_smiles_splits args then [EvSaveSplits] else []) @ ext"
  define after :: "('m, 's) event list" where "after = (if save_preds args \<and> \<not> ?ets then [EvWritePreds (preds_path args)] else [])"
  have sp: "scores_path (p_args ?p) = scores_path args" "preds_path (p_args ?p) = preds_path args"
    by (simp_all add: scores_path_def preds_path_def prepared_args_fields)
  have tr: "trace w' = trace w @ before @ [EvWriteScores (scores_path args)] @ after"
    using finish_Inr(2)[OF fin] ext(1)
    by (simp add: before_def after_def sp prepared_args_fields)
  have mem: "\<And>ev. is_member_event ev \<or> is_predict ev \<Longrightarrow> \<not> is_write_scores ev \<and> \<not> is_write_preds ev"
    by (case_tac ev) simp_all
  have b: "\<forall>ev \<in> set before. \<not> is_write_scores ev \<and> \<not> is_write_preds ev"
    using ext(2) mem by (auto simp: before_def)
  have a: "\<forall>ev \<in> set after. is_write_preds ev"
    by (simp add: after_def)
  have a': "\<forall>ev \<in> set after. \<not> is_write_scores ev"
    by (simp add: after_def)
  have cnt: "length (filter is_write_scores (drop (length (trace w)) (trace w'))) = 1"
    using b a' by (simp add: tr)
  have fl: "files w' (scores_path args) = Some (ScoresJson (json_dump_sorted result))"
    using finish_Inr(3)[OF fin] by (simp add: sp)
  show ?thesis
    using tr b a cnt fl json_dump_sorted_props[of result] json_dump_sorted_lookup[of result]
    by blast
qed

theorem scores_file_written_once_witness:
  "files (snd (run_training toy_env (toy_args\<lparr> epochs := 1 \<rparr>) [0, 1, 2, 3] toy_world))
       ''out/test_scores.json''
     = Some (ScoresJson [(''mae'', [Fin 4]), (''rmse'', [Fin 4])])
   \<and> length (filter is_write_scores
        (trace (snd (run_training toy_env (toy_args\<lparr> epochs := 1 \<rparr>) [0, 1, 2, 3] toy_world)))) = 1"
proof -
  let ?args = "toy_args\<lparr> epochs := 1 \<rparr>"
  let ?run = "run_training toy_env ?args [0, 1, 2, 3] toy_world"
  have run: "?run = (Inr [(''rmse'', [Fin 4]), (''mae'', [Fin 4])], snd ?run)"
    using toy_short_run(1) by (simp add: prod_eq_iff)
  have j: "json_dump_sorted [(''rmse'', [Fin 4]), (''mae'', [Fin 4])]
             = [(''mae'', [Fin 4]), (''rmse'', [Fin 4])]"
    by (simp add: json_dump_sorted_def)
  have sp: "scores_path ?args = ''out/test_scores.json''"
    by (simp add: scores_path_def os_path_join_def toy_args_def)
  from scores_file_written_once[OF run]
  have "length (filter is_write_scores (drop (length (trace toy_world)) (trace (snd ?run)))) = 1"
    and "files (snd ?run) (scores_path ?args)
           = Some (ScoresJson (json_dump_sorted [(''rmse'', [Fin 4]), (''mae'', [Fin 4])]))"
    by blast+
  then show ?thesis
    by (simp add: j sp toy_world_def)
qed

end
